theory Spec2Isabelle
  imports Main "HOL-Library.Word"
begin

unbundle bit_operations_syntax

section \<open>Data model of nat/translation.go\<close>

type_synonym IPv4Address = "32 word"
type_synonym IPv6Address = "128 word"
type_synonym MACAddress = "48 word"

text \<open>
  \<open>Tuple\<close> and \<open>Tuple6\<close> of the source. The translation tables hold them as
  \<open>interface{}\<close> values, so one table can hold either; the datatype is that sum.
\<close>

datatype tuple = Tuple IPv4Address "16 word" | Tuple6 IPv6Address "16 word"

text \<open>The keys of a neighbour cache (\<open>arpTable\<close>): an address of either family.\<close>

datatype ipAddr = IPv4Address IPv4Address | IPv6Address IPv6Address

text \<open>
  Modelled from the spec: the direction constants \<open>DirDROP\<close>, \<open>DirSEND\<close> and \<open>DirKNI\<close>
  are declared outside translation.go. The spec gives the three decisions Drop, Forward and
  RedirectToHost.
\<close>

datatype dir = DirDROP | DirSEND | DirKNI

text \<open>
  Modelled from the spec: the struct \<open>portMapEntry\<close> is declared outside translation.go;
  its four fields are the ones the composite literal of \<open>allocateNewEgressConnection\<close>
  writes. Times are integers (nanoseconds); \<open>terminationDirection\<close> is an unsigned integer
  type, since the source initialises it with the literal 0 and applies the bitwise
  complement to it; \<open>finCount\<close> is only compared with and assigned 0, 1 and 2.
\<close>

record portMapEntry =
  lastused :: int
  finCount :: nat
  terminationDirection :: "8 word"
  static :: bool

text \<open>The zero value \<open>portMapEntry{}\<close>.\<close>

definition portMapEntry0 :: portMapEntry where
  "portMapEntry0 = \<lparr>lastused = 0, finCount = 0, terminationDirection = 0, static = False\<rparr>"

text \<open>
  Constants that translation.go uses and that are declared outside it. They are parameters
  of the model: the two time spans, the bounds of the port pool, and the two values of
  \<open>terminationDirection\<close>.
\<close>

record natConsts =
  connectionTimeout :: int
  portReuseSetLastusedTime :: int
  portStart :: nat
  portEnd :: nat
  pri2pub :: "8 word"
  pub2pri :: "8 word"

text \<open>Constants of the packet library: the TCP protocol number and the TCP flag bits.\<close>

definition TCPNumber :: "8 word" where "TCPNumber = 6"
definition TCPFlagFin :: "8 word" where "TCPFlagFin = 0x01"
definition TCPFlagRst :: "8 word" where "TCPFlagRst = 0x04"
definition TCPFlagAck :: "8 word" where "TCPFlagAck = 0x10"

record 'a ipSubnet =
  Addr :: 'a
  addressAcquired :: bool

record ipv6Subnet = "IPv6Address ipSubnet" +
  llAddr :: IPv6Address
  multicastAddr :: IPv6Address
  llMulticastAddr :: IPv6Address

text \<open>
  One side of a port pair. \<open>tableEntries\<close> holds, for each protocol number, the entries
  of the side's translation table (a \<open>sync.Map\<close> in the source), as a list of pairs of a
  key and its value; \<open>portmap\<close> and \<open>portmap6\<close> are the slices behind \<open>getPortmap\<close>, per
  protocol. The pointer \<open>opposite\<close> is resolved through the pair: the opposite of the public
  side is the private side and conversely.
\<close>

record ipPort =
  Subnet :: "IPv4Address ipSubnet"
  Subnet6 :: ipv6Subnet
  KNIName :: string
  SrcMACAddress :: MACAddress
  Vlan :: "16 word"
  arpTable :: "ipAddr \<rightharpoonup> MACAddress"
  tableEntries :: "8 word \<Rightarrow> (tuple \<times> tuple) list"
  portmap :: "8 word \<Rightarrow> portMapEntry list"
  portmap6 :: "8 word \<Rightarrow> portMapEntry list"

text \<open>
  \<open>translationTable[protocol]\<close> of a side, as the map its entries stand for: applied to a
  key it is the \<open>Load\<close> of the source, \<open>None\<close> when the key is not found.
\<close>

definition translationTable :: "ipPort \<Rightarrow> 8 word \<Rightarrow> (tuple \<rightharpoonup> tuple)" where
  "translationTable port protocol = map_of (tableEntries port protocol)"

record portPair =
  PublicPort :: ipPort
  PrivatePort :: ipPort
  lastport :: "bool \<Rightarrow> 8 word \<Rightarrow> nat"

subsection \<open>Packets\<close>

record 'a IPHdr =
  SrcAddr :: 'a
  DstAddr :: 'a

record TCPHdr =
  TCPFlags :: "8 word"

datatype l3 = L3IPv4 "IPv4Address IPHdr" | L3IPv6 "IPv6Address IPHdr" | L3ARP | L3Other

text \<open>
  A packet as the engine sees it through the accessors of the packet library: the Ethernet
  addresses, the tag control field of the VLAN header when the frame has one (priority bits
  and the 12-bit VLAN identifier), the network header, and what \<open>ParseAllKnownL4\<close> returns
  for it (protocol number, the transport header found, both ports).
\<close>

record Packet =
  EtherSAddr :: MACAddress
  EtherDAddr :: MACAddress
  VLANTag :: "16 word option"
  L3 :: l3
  L4Protocol :: "8 word"
  L4TCP :: "TCPHdr option"
  L4UDP :: bool
  L4ICMP :: bool
  L4SrcPort :: "16 word"
  L4DstPort :: "16 word"

text \<open>
  The network header \<open>parsePacketAndCheckARP\<close> hands back: it returns at most one of its two
  header pointers, so the model returns them as one value.
\<close>

datatype ipHdr = IPv4 "IPv4Address IPHdr" | IPv6 "IPv6Address IPHdr"

fun isIPv6 :: "ipHdr \<Rightarrow> bool" where
  "isIPv6 (IPv4 _) = False"
| "isIPv6 (IPv6 _) = True"

text \<open>
  The external collaborators of the engine, as functions of the side and the packet:
  they are parameters of the model. Their own effects (lease state, ARP replies, ICMP
  replies) are outside it; here they only answer.
\<close>

record handlers =
  handleARP :: "ipPort \<Rightarrow> Packet \<Rightarrow> dir"
  handleICMP :: "ipPort \<Rightarrow> 8 word \<Rightarrow> Packet \<Rightarrow> tuple \<Rightarrow> dir"
  handleDHCP :: "ipPort \<Rightarrow> Packet \<Rightarrow> bool"
  handleDHCPv6 :: "ipPort \<Rightarrow> Packet \<Rightarrow> bool"

section \<open>Helpers declared outside translation.go\<close>

text \<open>\<open>packet.SwapBytesIPv4Addr\<close> of the packet library: the four bytes reversed.\<close>

definition SwapBytesIPv4Addr :: "IPv4Address \<Rightarrow> IPv4Address" where
  "SwapBytesIPv4Addr x =
     (push_bit 24 (x AND 0xff) OR push_bit 8 (x AND 0xff00) OR
      drop_bit 8 (x AND 0xff0000) OR drop_bit 24 x)"

text \<open>
  Modelled from the spec: \<open>ParseAllKnownL4\<close> is declared outside translation.go. It returns
  the protocol number (0 when the protocol is not supported), the TCP, UDP and ICMP headers
  found, and the source and destination ports.
\<close>

definition ParseAllKnownL4 ::
  "Packet \<Rightarrow> 8 word \<times> TCPHdr option \<times> bool \<times> bool \<times> 16 word \<times> 16 word" where
  "ParseAllKnownL4 pkt =
     (L4Protocol pkt, L4TCP pkt, L4UDP pkt, L4ICMP pkt, L4SrcPort pkt, L4DstPort pkt)"

text \<open>
  Modelled from the spec: \<open>getPortmap\<close> and \<open>getPublicPortPortmap\<close> are declared outside
  translation.go. The port map holds one entry per protocol and port number, per address
  family, on the public side only. \<open>setPublicPortPortmap\<close> writes a slice back: the source
  mutates the slice in place.
\<close>

definition getPortmap :: "ipPort \<Rightarrow> bool \<Rightarrow> 8 word \<Rightarrow> portMapEntry list" where
  "getPortmap port ipv6 protocol = (if ipv6 then portmap6 port protocol else portmap port protocol)"

definition getPublicPortPortmap :: "portPair \<Rightarrow> bool \<Rightarrow> 8 word \<Rightarrow> portMapEntry list" where
  "getPublicPortPortmap pp ipv6 protocol = getPortmap (PublicPort pp) ipv6 protocol"

definition setPublicPortPortmap ::
  "portPair \<Rightarrow> bool \<Rightarrow> 8 word \<Rightarrow> portMapEntry list \<Rightarrow> portPair" where
  "setPublicPortPortmap pp ipv6 protocol pm =
     (if ipv6
      then pp\<lparr>PublicPort := (PublicPort pp)\<lparr>portmap6 := (portmap6 (PublicPort pp))(protocol := pm)\<rparr>\<rparr>
      else pp\<lparr>PublicPort := (PublicPort pp)\<lparr>portmap := (portmap (PublicPort pp))(protocol := pm)\<rparr>\<rparr>)"

text \<open>
  The public tuple of a port number under the public side's current address of the family:
  the tuple \<open>allocateNewEgressConnection\<close> builds as \<open>pubEntry\<close>.
\<close>

definition publicTuple :: "portPair \<Rightarrow> bool \<Rightarrow> nat \<Rightarrow> tuple" where
  "publicTuple pp ipv6 port =
     (if ipv6 then Tuple6 (Addr (Subnet6 (PublicPort pp))) (word_of_nat port)
      else Tuple (Addr (Subnet (PublicPort pp))) (word_of_nat port))"

text \<open>
  \<open>Store\<close> on the table of one protocol: the entry of the key is replaced. \<open>tableDeleteIf\<close>
  is \<open>Delete\<close> for every key that satisfies a condition. \<open>arpStore\<close> is \<open>Store\<close> on the
  neighbour cache.
\<close>

definition tableStore :: "ipPort \<Rightarrow> 8 word \<Rightarrow> tuple \<Rightarrow> tuple \<Rightarrow> ipPort" where
  "tableStore port protocol k v =
     port\<lparr>tableEntries := (tableEntries port)
            (protocol := (k, v) # filter (\<lambda>e. fst e \<noteq> k) (tableEntries port protocol))\<rparr>"

definition tableDeleteIf :: "ipPort \<Rightarrow> 8 word \<Rightarrow> (tuple \<Rightarrow> bool) \<Rightarrow> ipPort" where
  "tableDeleteIf port protocol P =
     port\<lparr>tableEntries := (tableEntries port)
            (protocol := filter (\<lambda>e. \<not> P (fst e)) (tableEntries port protocol))\<rparr>"

definition arpStore :: "ipPort \<Rightarrow> ipAddr \<Rightarrow> MACAddress \<Rightarrow> ipPort" where
  "arpStore port ip mac = port\<lparr>arpTable := (arpTable port)(ip \<mapsto> mac)\<rparr>"

text \<open>
  Modelled from the spec: the public tuples of a port, for an address family: the tuples of
  that family with that port number, whatever their address.
\<close>

definition forPort :: "bool \<Rightarrow> nat \<Rightarrow> tuple \<Rightarrow> bool" where
  "forPort ipv6 port k =
     (case k of
        Tuple a p \<Rightarrow> \<not> ipv6 \<and> p = word_of_nat port
      | Tuple6 a p \<Rightarrow> ipv6 \<and> p = word_of_nat port)"

text \<open>
  Modelled from the spec: \<open>deleteOldConnection\<close> is declared outside translation.go. It
  removes both table entries for the port: the entry of the public table whose key is a
  public tuple of the port, and the entry of the private table under the tuple it maps to.
  It invalidates the port-map entry, which becomes the zero value. An index outside the
  slice is a run-time panic: \<open>None\<close>.
\<close>

definition deleteOldConnection :: "portPair \<Rightarrow> bool \<Rightarrow> 8 word \<Rightarrow> nat \<Rightarrow> portPair option" where
  "deleteOldConnection pp ipv6 protocol port =
     (let pubTable = translationTable (PublicPort pp) protocol;
          pri2pubKeys = map snd
            (filter (\<lambda>e. forPort ipv6 port (fst e) \<and> pubTable (fst e) = Some (snd e))
               (tableEntries (PublicPort pp) protocol));
          pp1 = pp\<lparr>PrivatePort := tableDeleteIf (PrivatePort pp) protocol
                                     (\<lambda>k. k \<in> set pri2pubKeys),
                  PublicPort := tableDeleteIf (PublicPort pp) protocol (forPort ipv6 port)\<rparr>;
          pm = getPublicPortPortmap pp1 ipv6 protocol
      in if port < length pm
         then Some (setPublicPortPortmap pp1 ipv6 protocol (pm[port := portMapEntry0]))
         else None)"

text \<open>
  Modelled from the spec: the error of \<open>allocNewPort\<close>, declared outside translation.go:
  the pool has no free port.
\<close>

datatype allocError = PortsExhausted

text \<open>
  Modelled from the spec: a port number is in use iff its entry is static or was last used
  within the connection timeout; it is free otherwise.
\<close>

definition portFree :: "natConsts \<Rightarrow> int \<Rightarrow> portMapEntry \<Rightarrow> bool" where
  "portFree c now e = (\<not> static e \<and> connectionTimeout c < now - lastused e)"

text \<open>
  Modelled from the spec: the bounded pool of port numbers, from \<open>portStart\<close> up to
  \<open>portEnd\<close>, in the order of the scan: from the allocation cursor on, then from the start.
\<close>

definition portPool :: "natConsts \<Rightarrow> nat \<Rightarrow> nat list" where
  "portPool c cursor =
     filter (\<lambda>p. cursor \<le> p) [portStart c ..< portEnd c] @
     filter (\<lambda>p. p < cursor) [portStart c ..< portEnd c]"

text \<open>
  Modelled from the spec: \<open>allocNewPort\<close> is declared outside translation.go. It selects
  an unused port number from the pool: the first port of the scan that has a slot in the
  port map and is free. An idle entry is reclaimed when an allocation touches it: the
  mapping still registered for the port is deleted. The cursor moves to the port. An
  exhausted pool is reported as an error, with no mutation.
\<close>

definition allocNewPort ::
  "natConsts \<Rightarrow> int \<Rightarrow> portPair \<Rightarrow> bool \<Rightarrow> 8 word \<Rightarrow> (portPair \<times> (allocError + nat)) option" where
  "allocNewPort c now pp ipv6 protocol =
     (let pm = getPublicPortPortmap pp ipv6 protocol in
      case find (\<lambda>p. p < length pm \<and> portFree c now (pm ! p)) (portPool c (lastport pp ipv6 protocol)) of
        None \<Rightarrow> Some (pp, Inl PortsExhausted)
      | Some p \<Rightarrow>
         (case deleteOldConnection pp ipv6 protocol p of
            None \<Rightarrow> None
          | Some pp1 \<Rightarrow>
              Some (pp1\<lparr>lastport := (lastport pp1)(ipv6 := (lastport pp1 ipv6)(protocol := p))\<rparr>, Inr p)))"

text \<open>
  Modelled from the spec: \<open>getMACForIPv4\<close> and \<open>getMACForIPv6\<close> are declared outside
  translation.go. They resolve an address in the side's neighbour cache.
\<close>

definition getMACForIPv4 :: "ipPort \<Rightarrow> IPv4Address \<Rightarrow> MACAddress option" where
  "getMACForIPv4 port ip = arpTable port (IPv4Address ip)"

definition getMACForIPv6 :: "ipPort \<Rightarrow> IPv6Address \<Rightarrow> MACAddress option" where
  "getMACForIPv6 port ip = arpTable port (IPv6Address ip)"

text \<open>
  Modelled from the spec: \<open>setPacketDstPort\<close> and \<open>setPacketSrcPort\<close> are declared outside
  translation.go. They write the translated port into the transport header.
\<close>

definition setPacketDstPort :: "Packet \<Rightarrow> 16 word \<Rightarrow> Packet" where
  "setPacketDstPort pkt newPort = pkt\<lparr>L4DstPort := newPort\<rparr>"

definition setPacketSrcPort :: "Packet \<Rightarrow> 16 word \<Rightarrow> Packet" where
  "setPacketSrcPort pkt newPort = pkt\<lparr>L4SrcPort := newPort\<rparr>"

text \<open>
  \<open>SetVLANTagIdentifier\<close> of the packet library: it writes the low 12 bits of the tag into
  the tag control field and keeps the field's four high bits.
\<close>

definition SetVLANTagIdentifier :: "16 word \<Rightarrow> 16 word \<Rightarrow> 16 word" where
  "SetVLANTagIdentifier tci tag = ((tci AND 0xf000) OR (tag AND 0x0fff))"

text \<open>The accessors of the packet library that \<open>parsePacketAndCheckARP\<close> calls.\<close>

definition ParseL3CheckVLAN :: "Packet \<Rightarrow> 16 word option" where
  "ParseL3CheckVLAN pkt = VLANTag pkt"

definition GetIPv4CheckVLAN :: "Packet \<Rightarrow> IPv4Address IPHdr option" where
  "GetIPv4CheckVLAN pkt = (case L3 pkt of L3IPv4 h \<Rightarrow> Some h | _ \<Rightarrow> None)"

definition GetIPv6CheckVLAN :: "Packet \<Rightarrow> IPv6Address IPHdr option" where
  "GetIPv6CheckVLAN pkt = (case L3 pkt of L3IPv6 h \<Rightarrow> Some h | _ \<Rightarrow> None)"

definition GetARPCheckVLAN :: "Packet \<Rightarrow> bool" where
  "GetARPCheckVLAN pkt = (case L3 pkt of L3ARP \<Rightarrow> True | _ \<Rightarrow> False)"

section \<open>The functions of translation.go\<close>

text \<open>
  State is passed explicitly: a function that mutates the port pair returns the new one.
  \<open>now\<close> is the reading of the clock while the packet is processed. A run-time panic
  (an index outside a slice, a failed type assertion) is the result \<open>None\<close>. The mutex and
  \<open>dumpPacket\<close> have no effect on the result and are left out.
\<close>

subsection \<open>allocateNewEgressConnection (lines 26-65)\<close>

definition allocateNewEgressConnection ::
  "natConsts \<Rightarrow> int \<Rightarrow> portPair \<Rightarrow> bool \<Rightarrow> 8 word \<Rightarrow> tuple \<Rightarrow>
   (portPair \<times> (allocError + IPv4Address \<times> IPv6Address \<times> 16 word)) option" where
  "allocateNewEgressConnection c now pp ipv6 protocol privEntry =
     (case allocNewPort c now pp ipv6 protocol of
        None \<Rightarrow> None
      | Some (pp1, Inl err) \<Rightarrow> Some (pp1, Inl err)
      | Some (pp1, Inr port) \<Rightarrow>
          (let v6addr = (if ipv6 then Addr (Subnet6 (PublicPort pp1)) else 0);
               v4addr = (if ipv6 then 0 else Addr (Subnet (PublicPort pp1)));
               pubEntry = (if ipv6 then Tuple6 v6addr (word_of_nat port)
                           else Tuple v4addr (word_of_nat port));
               pm = getPublicPortPortmap pp1 ipv6 protocol
           in if port < length pm
              then
                (let pp2 = setPublicPortPortmap pp1 ipv6 protocol
                             (pm[port := \<lparr>lastused = now, finCount = 0,
                                          terminationDirection = 0, static = False\<rparr>]);
                     pp3 = pp2\<lparr>PublicPort := tableStore (PublicPort pp2) protocol pubEntry privEntry\<rparr>;
                     pp4 = pp3\<lparr>PrivatePort := tableStore (PrivatePort pp3) protocol privEntry pubEntry\<rparr>
                 in Some (pp4, Inr (v4addr, v6addr, word_of_nat port)))
              else None))"

subsection \<open>getAddrFromTuple (lines 425-433)\<close>

fun getAddrFromTuple ::
  "tuple \<Rightarrow> bool \<Rightarrow> (IPv4Address \<times> IPv6Address \<times> 16 word \<times> bool) option" where
  "getAddrFromTuple (Tuple6 a p) True = Some (0, a, p, a = 0)"
| "getAddrFromTuple (Tuple a p) True = None"
| "getAddrFromTuple (Tuple a p) False = Some (a, 0, p, a = 0)"
| "getAddrFromTuple (Tuple6 a p) False = None"

subsection \<open>checkTCPTermination (lines 368-403)\<close>

definition checkTCPTermination ::
  "natConsts \<Rightarrow> int \<Rightarrow> portPair \<Rightarrow> bool \<Rightarrow> TCPHdr \<Rightarrow> nat \<Rightarrow> 8 word \<Rightarrow> portPair option" where
  "checkTCPTermination c now pp ipv6 hdr port d =
     (if TCPFlags hdr AND TCPFlagFin \<noteq> 0 then
        (let pm = getPublicPortPortmap pp ipv6 TCPNumber in
         if port < length pm then
           (let pme = pm ! port in
            if finCount pme = 0 then
              Some (setPublicPortPortmap pp ipv6 TCPNumber
                      (pm[port := pme\<lparr>finCount := 1, terminationDirection := d\<rparr>]))
            else if finCount pme = 1 \<and> terminationDirection pme = NOT d then
              Some (setPublicPortPortmap pp ipv6 TCPNumber (pm[port := pme\<lparr>finCount := 2\<rparr>]))
            else Some pp)
         else None)
      else if TCPFlags hdr AND TCPFlagRst \<noteq> 0 then
        deleteOldConnection pp ipv6 TCPNumber port
      else if TCPFlags hdr AND TCPFlagAck \<noteq> 0 then
        (let pm = getPublicPortPortmap pp ipv6 TCPNumber in
         if port < length pm then
           (if finCount (pm ! port) = 2 then
              (case deleteOldConnection pp ipv6 TCPNumber port of
                 None \<Rightarrow> None
               | Some pp1 \<Rightarrow>
                   (let pm1 = getPublicPortPortmap pp1 ipv6 TCPNumber in
                    Some (setPublicPortPortmap pp1 ipv6 TCPNumber
                            (pm1[port := (pm1 ! port)
                               \<lparr>lastused := now + portReuseSetLastusedTime c\<rparr>]))))
            else Some pp)
         else None)
      else Some pp)"

subsection \<open>parsePacketAndCheckARP (lines 405-423)\<close>

definition parsePacketAndCheckARP ::
  "handlers \<Rightarrow> ipPort \<Rightarrow> Packet \<Rightarrow> dir \<times> 16 word option \<times> ipHdr option" where
  "parsePacketAndCheckARP h port pkt =
     (let pktVLAN = ParseL3CheckVLAN pkt in
      case GetIPv4CheckVLAN pkt of
        None \<Rightarrow>
          (case GetIPv6CheckVLAN pkt of
             None \<Rightarrow>
               (if GetARPCheckVLAN pkt then (handleARP h port pkt, pktVLAN, None)
                else (DirDROP, pktVLAN, None))
           | Some pktIPv6 \<Rightarrow> (DirSEND, pktVLAN, Some (IPv6 pktIPv6)))
      | Some pktIPv4 \<Rightarrow> (DirSEND, pktVLAN, Some (IPv4 pktIPv4)))"

subsection \<open>PublicToPrivateTranslation (lines 68-207)\<close>

text \<open>The rewrite of the packet at the end of the ingress path (lines 188-199).\<close>

definition translateDst ::
  "ipPort \<Rightarrow> Packet \<Rightarrow> 16 word option \<Rightarrow> ipHdr \<Rightarrow> MACAddress \<Rightarrow> IPv4Address \<Rightarrow>
   IPv6Address \<Rightarrow> 16 word \<Rightarrow> Packet" where
  "translateDst opposite pkt pktVLAN ip mac v4addr v6addr newPort =
     (let pkt1 = pkt\<lparr>EtherDAddr := mac, EtherSAddr := SrcMACAddress opposite\<rparr>;
          pkt2 = (case pktVLAN of
                    None \<Rightarrow> pkt1
                  | Some tci \<Rightarrow> pkt1\<lparr>VLANTag := Some (SetVLANTagIdentifier tci (Vlan opposite))\<rparr>);
          pkt3 = (case ip of
                    IPv6 pktIPv6 \<Rightarrow> pkt2\<lparr>L3 := L3IPv6 (pktIPv6\<lparr>DstAddr := v6addr\<rparr>)\<rparr>
                  | IPv4 pktIPv4 \<Rightarrow> pkt2\<lparr>L3 := L3IPv4 (pktIPv4\<lparr>DstAddr := SwapBytesIPv4Addr v4addr\<rparr>)\<rparr>)
      in setPacketDstPort pkt3 newPort)"

text \<open>The lookup and what follows it (lines 124-206).\<close>

definition PublicToPrivateLookup ::
  "natConsts \<Rightarrow> int \<Rightarrow> portPair \<Rightarrow> Packet \<Rightarrow> 16 word option \<Rightarrow> ipHdr \<Rightarrow> 8 word \<Rightarrow>
   TCPHdr option \<Rightarrow> 16 word \<Rightarrow> tuple \<Rightarrow> (dir \<times> portPair \<times> Packet) option" where
  "PublicToPrivateLookup c now pp pkt pktVLAN ip protocol pktTCP portNumber pub2priKey =
     (let port = PublicPort pp;
          ipv6 = isIPv6 ip;
          kniPresent = (KNIName port \<noteq> [])
      in
      case translationTable port protocol pub2priKey of
        None \<Rightarrow>
          (let port1 = (case ip of
                          IPv6 pktIPv6 \<Rightarrow> arpStore port (IPv6Address (SrcAddr pktIPv6)) (EtherSAddr pkt)
                        | IPv4 pktIPv4 \<Rightarrow> arpStore port (IPv4Address (SrcAddr pktIPv4)) (EtherSAddr pkt));
               acquired = (if ipv6 then addressAcquired (Subnet6 port1)
                           else addressAcquired (Subnet port1))
           in Some (if kniPresent \<and> acquired then DirKNI else DirDROP,
                    pp\<lparr>PublicPort := port1\<rparr>, pkt))
      | Some v \<Rightarrow>
          (case getAddrFromTuple v ipv6 of
             None \<Rightarrow> None
           | Some (v4addr, v6addr, newPort, zeroAddr) \<Rightarrow>
               (let pm = getPortmap port ipv6 protocol;
                    n = unat portNumber
                in
                if n < length pm then
                  (if static (pm ! n) \<or> now - lastused (pm ! n) \<le> connectionTimeout c then
                     (let pp1 = setPublicPortPortmap pp ipv6 protocol
                                  (pm[n := (pm ! n)\<lparr>lastused := now\<rparr>])
                      in
                      if \<not> zeroAddr then
                        (case (case pktTCP of
                                 None \<Rightarrow> Some pp1
                               | Some hdr \<Rightarrow>
                                   if \<not> static (pm ! n)
                                   then checkTCPTermination c now pp1 ipv6 hdr n (pub2pri c)
                                   else Some pp1) of
                           None \<Rightarrow> None
                         | Some pp2 \<Rightarrow>
                             (case (if ipv6 then getMACForIPv6 (PrivatePort pp2) v6addr
                                    else getMACForIPv4 (PrivatePort pp2) v4addr) of
                                None \<Rightarrow> Some (DirDROP, pp2, pkt)
                              | Some mac \<Rightarrow>
                                  Some (DirSEND, pp2,
                                        translateDst (PrivatePort pp2) pkt pktVLAN ip mac
                                          v4addr v6addr newPort)))
                      else Some (DirKNI, pp1, pkt))
                   else
                     (case deleteOldConnection pp ipv6 protocol n of
                        None \<Rightarrow> None
                      | Some pp1 \<Rightarrow> Some (DirDROP, pp1, pkt)))
                else None)))"

text \<open>The lookup key of an ingress packet: its destination address and port (lines 88-100).\<close>

definition pub2priKeyOf :: "ipHdr \<Rightarrow> 16 word \<Rightarrow> tuple" where
  "pub2priKeyOf ip portNumber =
     (case ip of
        IPv4 pktIPv4 \<Rightarrow> Tuple (SwapBytesIPv4Addr (DstAddr pktIPv4)) portNumber
      | IPv6 pktIPv6 \<Rightarrow> Tuple6 (DstAddr pktIPv6) portNumber)"

definition PublicToPrivateTranslation ::
  "natConsts \<Rightarrow> handlers \<Rightarrow> int \<Rightarrow> portPair \<Rightarrow> Packet \<Rightarrow> (dir \<times> portPair \<times> Packet) option" where
  "PublicToPrivateTranslation c h now pp pkt =
     (let port = PublicPort pp in
      case parsePacketAndCheckARP h port pkt of
        (d, pktVLAN, None) \<Rightarrow> Some (d, pp, pkt)
      | (d, pktVLAN, Some ip) \<Rightarrow>
          (case ParseAllKnownL4 pkt of
             (protocol, pktTCP, pktUDP, pktICMP, SrcPort, DstPort) \<Rightarrow>
               if protocol = 0 then Some (DirDROP, pp, pkt)
               else
                 (let portNumber = DstPort;
                      pub2priKey = pub2priKeyOf ip portNumber
                  in
                  if pktICMP \<and> handleICMP h port protocol pkt pub2priKey \<noteq> DirSEND
                  then Some (handleICMP h port protocol pkt pub2priKey, pp, pkt)
                  else
                    (let ipv6 = isIPv6 ip in
                     if pktUDP \<and> (if ipv6 then handleDHCPv6 h port pkt else handleDHCP h port pkt)
                     then Some (DirDROP, pp, pkt)
                     else PublicToPrivateLookup c now pp pkt pktVLAN ip protocol pktTCP
                            portNumber pub2priKey))))"

subsection \<open>PrivateToPublicTranslation (lines 210-365)\<close>

text \<open>The rewrite of the packet at the end of the egress path (lines 346-357).\<close>

definition translateSrc ::
  "ipPort \<Rightarrow> Packet \<Rightarrow> 16 word option \<Rightarrow> ipHdr \<Rightarrow> MACAddress \<Rightarrow> IPv4Address \<Rightarrow>
   IPv6Address \<Rightarrow> 16 word \<Rightarrow> Packet" where
  "translateSrc opposite pkt pktVLAN ip mac v4addr v6addr newPort =
     (let pkt1 = pkt\<lparr>EtherDAddr := mac, EtherSAddr := SrcMACAddress opposite\<rparr>;
          pkt2 = (case pktVLAN of
                    None \<Rightarrow> pkt1
                  | Some tci \<Rightarrow> pkt1\<lparr>VLANTag := Some (SetVLANTagIdentifier tci (Vlan opposite))\<rparr>);
          pkt3 = (case ip of
                    IPv6 pktIPv6 \<Rightarrow> pkt2\<lparr>L3 := L3IPv6 (pktIPv6\<lparr>SrcAddr := v6addr\<rparr>)\<rparr>
                  | IPv4 pktIPv4 \<Rightarrow> pkt2\<lparr>L3 := L3IPv4 (pktIPv4\<lparr>SrcAddr := SwapBytesIPv4Addr v4addr\<rparr>)\<rparr>)
      in setPacketSrcPort pkt3 newPort)"

text \<open>The translation once the public tuple is known (lines 327-364).\<close>

definition PrivateToPublicSend ::
  "natConsts \<Rightarrow> int \<Rightarrow> portPair \<Rightarrow> Packet \<Rightarrow> 16 word option \<Rightarrow> ipHdr \<Rightarrow> 8 word \<Rightarrow>
   TCPHdr option \<Rightarrow> IPv4Address \<Rightarrow> IPv6Address \<Rightarrow> 16 word \<Rightarrow> bool \<Rightarrow>
   (dir \<times> portPair \<times> Packet) option" where
  "PrivateToPublicSend c now pp pkt pktVLAN ip protocol pktTCP v4addr v6addr newPort zeroAddr =
     (let ipv6 = isIPv6 ip in
      if \<not> zeroAddr then
        (let pm = getPortmap (PublicPort pp) ipv6 protocol;
             n = unat newPort
         in
         case (case pktTCP of
                 None \<Rightarrow> Some pp
               | Some hdr \<Rightarrow>
                   if n < length pm then
                     (if \<not> static (pm ! n)
                      then checkTCPTermination c now pp ipv6 hdr n (pri2pub c)
                      else Some pp)
                   else None) of
           None \<Rightarrow> None
         | Some pp1 \<Rightarrow>
             (case (case ip of
                      IPv6 pktIPv6 \<Rightarrow> getMACForIPv6 (PublicPort pp1) (DstAddr pktIPv6)
                    | IPv4 pktIPv4 \<Rightarrow>
                        getMACForIPv4 (PublicPort pp1) (SwapBytesIPv4Addr (DstAddr pktIPv4))) of
                None \<Rightarrow> Some (DirDROP, pp1, pkt)
              | Some mac \<Rightarrow>
                  Some (DirSEND, pp1,
                        translateSrc (PublicPort pp1) pkt pktVLAN ip mac v4addr v6addr newPort)))
      else Some (DirKNI, pp, pkt))"

text \<open>
  What a worker does once its lookup has missed (lines 295-321, then the translation): it
  stores the packet's source in the neighbour cache, checks the acquired addresses and
  allocates. The lookup before it is outside the mutex and the allocation does not repeat
  it, so this part runs on the state the worker finds when it gets there.
\<close>

definition PrivateToPublicMiss ::
  "natConsts \<Rightarrow> int \<Rightarrow> portPair \<Rightarrow> Packet \<Rightarrow> 16 word option \<Rightarrow> ipHdr \<Rightarrow> 8 word \<Rightarrow>
   TCPHdr option \<Rightarrow> tuple \<Rightarrow> bool \<Rightarrow> (dir \<times> portPair \<times> Packet) option" where
  "PrivateToPublicMiss c now pp pkt pktVLAN ip protocol pktTCP pri2pubKey acquired =
     (let port = PrivatePort pp;
          ipv6 = isIPv6 ip;
          port1 = (case ip of
                     IPv6 pktIPv6 \<Rightarrow> arpStore port (IPv6Address (SrcAddr pktIPv6)) (EtherSAddr pkt)
                   | IPv4 pktIPv4 \<Rightarrow> arpStore port (IPv4Address (SrcAddr pktIPv4)) (EtherSAddr pkt));
          pp1 = pp\<lparr>PrivatePort := port1\<rparr>;
          publicAddressAcquired = (if ipv6 then addressAcquired (Subnet6 (PublicPort pp1))
                                   else addressAcquired (Subnet (PublicPort pp1)))
      in
      if \<not> acquired \<or> \<not> publicAddressAcquired then Some (DirDROP, pp1, pkt)
      else
        (case allocateNewEgressConnection c now pp1 ipv6 protocol pri2pubKey of
           None \<Rightarrow> None
         | Some (pp2, Inl err) \<Rightarrow> Some (DirDROP, pp2, pkt)
         | Some (pp2, Inr (v4addr, v6addr, newPort)) \<Rightarrow>
             PrivateToPublicSend c now pp2 pkt pktVLAN ip protocol pktTCP
               v4addr v6addr newPort False))"

text \<open>The lookup, with the allocation on a miss and the refresh on a hit (lines 287-325).\<close>

definition PrivateToPublicLookup ::
  "natConsts \<Rightarrow> int \<Rightarrow> portPair \<Rightarrow> Packet \<Rightarrow> 16 word option \<Rightarrow> ipHdr \<Rightarrow> 8 word \<Rightarrow>
   TCPHdr option \<Rightarrow> tuple \<Rightarrow> bool \<Rightarrow> (dir \<times> portPair \<times> Packet) option" where
  "PrivateToPublicLookup c now pp pkt pktVLAN ip protocol pktTCP pri2pubKey acquired =
     (let port = PrivatePort pp;
          ipv6 = isIPv6 ip
      in
      case translationTable port protocol pri2pubKey of
        None \<Rightarrow>
          PrivateToPublicMiss c now pp pkt pktVLAN ip protocol pktTCP pri2pubKey acquired
      | Some v \<Rightarrow>
          (case getAddrFromTuple v ipv6 of
             None \<Rightarrow> None
           | Some (v4addr, v6addr, newPort, zeroAddr) \<Rightarrow>
               (let pm = getPortmap (PublicPort pp) ipv6 protocol;
                    n = unat newPort
                in
                if n < length pm then
                  PrivateToPublicSend c now
                    (setPublicPortPortmap pp ipv6 protocol (pm[n := (pm ! n)\<lparr>lastused := now\<rparr>]))
                    pkt pktVLAN ip protocol pktTCP v4addr v6addr newPort zeroAddr
                else None)))"

text \<open>Whether the packet is addressed to one of the side's own addresses (lines 269-278).\<close>

definition packetSentToUs :: "ipPort \<Rightarrow> ipHdr \<Rightarrow> bool" where
  "packetSentToUs port ip =
     (case ip of
        IPv6 pktIPv6 \<Rightarrow>
          Addr (Subnet6 port) = DstAddr pktIPv6 \<or>
          llAddr (Subnet6 port) = DstAddr pktIPv6 \<or>
          multicastAddr (Subnet6 port) = DstAddr pktIPv6 \<or>
          llMulticastAddr (Subnet6 port) = DstAddr pktIPv6
      | IPv4 pktIPv4 \<Rightarrow> Addr (Subnet port) = SwapBytesIPv4Addr (DstAddr pktIPv4))"

text \<open>The lookup key of an egress packet: its source address and port (lines 230-242).\<close>

definition pri2pubKeyOf :: "ipHdr \<Rightarrow> 16 word \<Rightarrow> tuple" where
  "pri2pubKeyOf ip portNumber =
     (case ip of
        IPv4 pktIPv4 \<Rightarrow> Tuple (SwapBytesIPv4Addr (SrcAddr pktIPv4)) portNumber
      | IPv6 pktIPv6 \<Rightarrow> Tuple6 (SrcAddr pktIPv6) portNumber)"

definition PrivateToPublicTranslation ::
  "natConsts \<Rightarrow> handlers \<Rightarrow> int \<Rightarrow> portPair \<Rightarrow> Packet \<Rightarrow> (dir \<times> portPair \<times> Packet) option" where
  "PrivateToPublicTranslation c h now pp pkt =
     (let port = PrivatePort pp in
      case parsePacketAndCheckARP h port pkt of
        (d, pktVLAN, None) \<Rightarrow> Some (d, pp, pkt)
      | (d, pktVLAN, Some ip) \<Rightarrow>
          (case ParseAllKnownL4 pkt of
             (protocol, pktTCP, pktUDP, pktICMP, SrcPort, DstPort) \<Rightarrow>
               if protocol = 0 then Some (DirDROP, pp, pkt)
               else
                 (let portNumber = SrcPort;
                      pri2pubKey = pri2pubKeyOf ip portNumber
                  in
                  if pktICMP \<and> handleICMP h port protocol pkt pri2pubKey \<noteq> DirSEND
                  then Some (handleICMP h port protocol pkt pri2pubKey, pp, pkt)
                  else
                    (let ipv6 = isIPv6 ip in
                     if pktUDP \<and> (if ipv6 then handleDHCPv6 h port pkt else handleDHCP h port pkt)
                     then Some (DirDROP, pp, pkt)
                     else
                       (let kniPresent = (KNIName port \<noteq> []);
                            acquired = (if ipv6 then addressAcquired (Subnet6 port)
                                        else addressAcquired (Subnet port))
                        in
                        if kniPresent \<and> acquired \<and> packetSentToUs port ip
                        then Some (DirKNI, pp, pkt)
                        else PrivateToPublicLookup c now pp pkt pktVLAN ip protocol pktTCP
                               pri2pubKey acquired)))))"

section \<open>Notions used by the properties\<close>

text \<open>The network header of a packet, when it is an IP packet.\<close>

definition packetIP :: "Packet \<Rightarrow> ipHdr option" where
  "packetIP pkt =
     (case L3 pkt of
        L3IPv4 pktIPv4 \<Rightarrow> Some (IPv4 pktIPv4)
      | L3IPv6 pktIPv6 \<Rightarrow> Some (IPv6 pktIPv6)
      | _ \<Rightarrow> None)"

text \<open>The key under which a packet's source is stored in a neighbour cache.\<close>

definition srcAddrOf :: "ipHdr \<Rightarrow> ipAddr" where
  "srcAddrOf ip =
     (case ip of
        IPv6 pktIPv6 \<Rightarrow> IPv6Address (SrcAddr pktIPv6)
      | IPv4 pktIPv4 \<Rightarrow> IPv4Address (SrcAddr pktIPv4))"

text \<open>Whether a side has acquired its address of the packet's family.\<close>

definition acquiredFor :: "ipPort \<Rightarrow> ipHdr \<Rightarrow> bool" where
  "acquiredFor port ip =
     (if isIPv6 ip then addressAcquired (Subnet6 port) else addressAcquired (Subnet port))"

text \<open>
  A packet passes the handlers when none of the returns before the lookup is taken: the
  protocol is supported, the ICMP handler answers \<open>DirSEND\<close> for an ICMP packet, and the
  DHCP handler of the family does not consume a UDP packet.
\<close>

definition passesHandlers :: "handlers \<Rightarrow> ipPort \<Rightarrow> Packet \<Rightarrow> ipHdr \<Rightarrow> tuple \<Rightarrow> bool" where
  "passesHandlers h port pkt ip key =
     (L4Protocol pkt \<noteq> 0 \<and>
      (L4ICMP pkt \<longrightarrow> handleICMP h port (L4Protocol pkt) pkt key = DirSEND) \<and>
      (L4UDP pkt \<longrightarrow>
         \<not> (if isIPv6 ip then handleDHCPv6 h port pkt else handleDHCP h port pkt)))"

text \<open>The redirect of egress traffic addressed to the private side itself (lines 280-285).\<close>

definition redirectedToHost :: "ipPort \<Rightarrow> ipHdr \<Rightarrow> bool" where
  "redirectedToHost port ip = (KNIName port \<noteq> [] \<and> acquiredFor port ip \<and> packetSentToUs port ip)"

text \<open>The other one of the two sides that observe a TCP packet.\<close>

definition otherSide :: "natConsts \<Rightarrow> 8 word \<Rightarrow> 8 word" where
  "otherSide c d = (if d = pri2pub c then pub2pri c else pri2pub c)"

text \<open>The pool has no free port: every port of the pool with a slot in the port map is in use.\<close>

definition poolExhausted :: "natConsts \<Rightarrow> int \<Rightarrow> portMapEntry list \<Rightarrow> bool" where
  "poolExhausted c now pm =
     (\<forall>p. portStart c \<le> p \<and> p < portEnd c \<and> p < length pm \<longrightarrow> \<not> portFree c now (pm ! p))"

text \<open>
  The pairing of the two tables: for every protocol, the public table maps \<open>k\<close> to \<open>v\<close>
  exactly when the private table maps \<open>v\<close> to \<open>k\<close>. \<open>privatePaired\<close> is one half of it:
  every entry of the private table has its pair in the public table.
\<close>

definition pairing :: "portPair \<Rightarrow> bool" where
  "pairing pp =
     (\<forall>protocol k v.
        (translationTable (PublicPort pp) protocol k = Some v) =
        (translationTable (PrivatePort pp) protocol v = Some k))"

definition privatePaired :: "portPair \<Rightarrow> bool" where
  "privatePaired pp =
     (\<forall>protocol k v.
        translationTable (PrivatePort pp) protocol v = Some k \<longrightarrow>
        translationTable (PublicPort pp) protocol k = Some v)"

text \<open>
  The states a port pair can be in between two operations under its mutex, whatever the
  interleaving of the workers. It starts with empty tables. The operations under the mutex
  are the allocation of an egress connection, the termination tracker and the deletion of
  a connection; everything else a worker or an external collaborator writes (neighbour
  caches, \<open>lastused\<close>, leases) leaves the translation tables as they are. A worker looks its
  key up outside the mutex, and the allocation does not look it up again: by the time a
  worker allocates, the miss it has seen may be out of date, so the allocation step has no
  condition on the tables.
\<close>

inductive reachable :: "natConsts \<Rightarrow> portPair \<Rightarrow> bool" for c where
  initial:
    "translationTable (PublicPort pp) = (\<lambda>_. Map.empty) \<Longrightarrow>
     translationTable (PrivatePort pp) = (\<lambda>_. Map.empty) \<Longrightarrow> reachable c pp"
| allocation:
    "reachable c pp \<Longrightarrow>
     allocateNewEgressConnection c now pp ipv6 protocol privEntry = Some (pp', r) \<Longrightarrow>
     reachable c pp'"
| tracker:
    "reachable c pp \<Longrightarrow>
     checkTCPTermination c now pp ipv6 hdr port d = Some pp' \<Longrightarrow> reachable c pp'"
| deletion:
    "reachable c pp \<Longrightarrow>
     deleteOldConnection pp ipv6 protocol port = Some pp' \<Longrightarrow> reachable c pp'"
| external:
    "reachable c pp \<Longrightarrow>
     translationTable (PublicPort pp') = translationTable (PublicPort pp) \<Longrightarrow>
     translationTable (PrivatePort pp') = translationTable (PrivatePort pp) \<Longrightarrow>
     reachable c pp'"

text \<open>
  The states reached when the packets are processed one at a time: each step is a whole run
  of one of the two entry points, so every allocation follows the miss of its own lookup
  with nothing in between.
\<close>

inductive reachableSerial :: "natConsts \<Rightarrow> handlers \<Rightarrow> portPair \<Rightarrow> bool" for c h where
  initial:
    "translationTable (PublicPort pp) = (\<lambda>_. Map.empty) \<Longrightarrow>
     translationTable (PrivatePort pp) = (\<lambda>_. Map.empty) \<Longrightarrow> reachableSerial c h pp"
| ingress:
    "reachableSerial c h pp \<Longrightarrow>
     PublicToPrivateTranslation c h now pp pkt = Some (d, pp', pkt') \<Longrightarrow>
     reachableSerial c h pp'"
| egress:
    "reachableSerial c h pp \<Longrightarrow>
     PrivateToPublicTranslation c h now pp pkt = Some (d, pp', pkt') \<Longrightarrow>
     reachableSerial c h pp'"
| external:
    "reachableSerial c h pp \<Longrightarrow>
     translationTable (PublicPort pp') = translationTable (PublicPort pp) \<Longrightarrow>
     translationTable (PrivatePort pp') = translationTable (PrivatePort pp) \<Longrightarrow>
     reachableSerial c h pp'"

text \<open>
  A sequence of observations by the termination tracker on one port: each is the time, the
  TCP header and the observing side. A panic ends the sequence with \<open>None\<close>.
\<close>

fun observe ::
  "natConsts \<Rightarrow> bool \<Rightarrow> nat \<Rightarrow> portPair \<Rightarrow> (int \<times> TCPHdr \<times> 8 word) list \<Rightarrow> portPair option" where
  "observe c ipv6 port pp [] = Some pp"
| "observe c ipv6 port pp ((now, hdr, d) # os) =
     (case checkTCPTermination c now pp ipv6 hdr port d of
        None \<Rightarrow> None
      | Some pp' \<Rightarrow> observe c ipv6 port pp' os)"

text \<open>The sides that observed a packet with the FIN flag, in a sequence of observations.\<close>

fun finSides :: "(int \<times> TCPHdr \<times> 8 word) list \<Rightarrow> 8 word list" where
  "finSides [] = []"
| "finSides ((now, hdr, d) # os) =
     (if TCPFlags hdr AND TCPFlagFin \<noteq> 0 then d # finSides os else finSides os)"

text \<open>Observations of a state, and of the result of an entry point, for the examples.\<close>

definition slotIn :: "portPair option \<Rightarrow> bool \<Rightarrow> 8 word \<Rightarrow> nat \<Rightarrow> portMapEntry option" where
  "slotIn s ipv6 protocol port =
     map_option (\<lambda>pp. getPublicPortPortmap pp ipv6 protocol ! port) s"

definition publicEntryIn :: "portPair option \<Rightarrow> 8 word \<Rightarrow> tuple \<Rightarrow> tuple option option" where
  "publicEntryIn s protocol k = map_option (\<lambda>pp. translationTable (PublicPort pp) protocol k) s"

definition privateEntryIn :: "portPair option \<Rightarrow> 8 word \<Rightarrow> tuple \<Rightarrow> tuple option option" where
  "privateEntryIn s protocol k = map_option (\<lambda>pp. translationTable (PrivatePort pp) protocol k) s"

definition resultDir :: "(dir \<times> portPair \<times> Packet) option \<Rightarrow> dir option" where
  "resultDir r = map_option fst r"

definition resultPair :: "(dir \<times> portPair \<times> Packet) option \<Rightarrow> portPair option" where
  "resultPair r = map_option (\<lambda>x. fst (snd x)) r"

definition slotAfter ::
  "(dir \<times> portPair \<times> Packet) option \<Rightarrow> bool \<Rightarrow> 8 word \<Rightarrow> nat \<Rightarrow> portMapEntry option" where
  "slotAfter r ipv6 protocol port = slotIn (resultPair r) ipv6 protocol port"

definition publicEntryAfter ::
  "(dir \<times> portPair \<times> Packet) option \<Rightarrow> 8 word \<Rightarrow> tuple \<Rightarrow> tuple option option" where
  "publicEntryAfter r protocol k = publicEntryIn (resultPair r) protocol k"

definition privateEntryAfter ::
  "(dir \<times> portPair \<times> Packet) option \<Rightarrow> 8 word \<Rightarrow> tuple \<Rightarrow> tuple option option" where
  "privateEntryAfter r protocol k = privateEntryIn (resultPair r) protocol k"

section \<open>Example states and packets\<close>

text \<open>
  A port pair with the public address 203.0.113.1 and the private address 10.0.0.1, both
  acquired, no host redirect, and a pool of the ports 1 to 3; the constants as the
  hexadecimal complements \<open>0x0f\<close> and \<open>0xf0\<close> for the two sides.
\<close>

definition exConsts :: natConsts where
  "exConsts = \<lparr>connectionTimeout = 60, portReuseSetLastusedTime = 1, portStart = 1, portEnd = 4,
               pri2pub = 0x0f, pub2pri = 0xf0\<rparr>"

definition exHandlers :: handlers where
  "exHandlers = \<lparr>handleARP = (\<lambda>_ _. DirDROP), handleICMP = (\<lambda>_ _ _ _. DirSEND),
                 handleDHCP = (\<lambda>_ _. False), handleDHCPv6 = (\<lambda>_ _. False)\<rparr>"

definition exSubnet6 :: ipv6Subnet where
  "exSubnet6 = \<lparr>Addr = 0, addressAcquired = False, llAddr = 0, multicastAddr = 0,
                llMulticastAddr = 0\<rparr>"

definition exPublic :: ipPort where
  "exPublic = \<lparr>Subnet = \<lparr>Addr = 0xCB007101, addressAcquired = True\<rparr>, Subnet6 = exSubnet6,
     KNIName = [], SrcMACAddress = 0xA1, Vlan = 0,
     arpTable = [IPv4Address 0x08080808 \<mapsto> 0xB1, IPv4Address 0x0A000001 \<mapsto> 0xB2],
     tableEntries = (\<lambda>_. []),
     portmap = (\<lambda>_. [portMapEntry0, portMapEntry0, portMapEntry0, portMapEntry0]),
     portmap6 = (\<lambda>_. [])\<rparr>"

definition exPrivate :: ipPort where
  "exPrivate = \<lparr>Subnet = \<lparr>Addr = 0x0A000001, addressAcquired = True\<rparr>, Subnet6 = exSubnet6,
     KNIName = [], SrcMACAddress = 0xA2, Vlan = 0,
     arpTable = [IPv4Address 0x0A000005 \<mapsto> 0xC1],
     tableEntries = (\<lambda>_. []),
     portmap = (\<lambda>_. []), portmap6 = (\<lambda>_. [])\<rparr>"

definition exPair :: portPair where
  "exPair = \<lparr>PublicPort = exPublic, PrivatePort = exPrivate, lastport = (\<lambda>_ _. 1)\<rparr>"

text \<open>
  The same pair with one mapping, for every protocol: public 203.0.113.1:1 with private
  10.0.0.5:40000, last used at time 1000, and the TCP close counter at \<open>n\<close>, set by side \<open>d\<close>.
\<close>

definition exEntry :: "nat \<Rightarrow> 8 word \<Rightarrow> portMapEntry" where
  "exEntry n d = \<lparr>lastused = 1000, finCount = n, terminationDirection = d, static = False\<rparr>"

definition exMapped :: "nat \<Rightarrow> 8 word \<Rightarrow> portPair" where
  "exMapped n d =
     \<lparr>PublicPort = exPublic
        \<lparr>tableEntries := (\<lambda>_. [(Tuple 0xCB007101 1, Tuple 0x0A000005 40000)]),
         portmap := (\<lambda>_. [portMapEntry0, exEntry n d, portMapEntry0, portMapEntry0])\<rparr>,
      PrivatePort = exPrivate
        \<lparr>tableEntries := (\<lambda>_. [(Tuple 0x0A000005 40000, Tuple 0xCB007101 1)])\<rparr>,
      lastport = (\<lambda>_ _. 1)\<rparr>"

text \<open>
  The pair with the mapping, after the public side has moved to the address 203.0.113.2:
  the mapping is still registered under the address it was allocated with.
\<close>

definition exMoved :: portPair where
  "exMoved =
     (exMapped 0 0)\<lparr>PublicPort := (PublicPort (exMapped 0 0))
        \<lparr>Subnet := \<lparr>Addr = 0xCB007102, addressAcquired = True\<rparr>\<rparr>\<rparr>"

text \<open>
  The pair with every port of the pool in use: all four slots of every port map are static.
\<close>

definition exFull :: portPair where
  "exFull =
     exPair\<lparr>PublicPort := exPublic
        \<lparr>portmap := (\<lambda>_. [portMapEntry0\<lparr>static := True\<rparr>, portMapEntry0\<lparr>static := True\<rparr>,
                            portMapEntry0\<lparr>static := True\<rparr>, portMapEntry0\<lparr>static := True\<rparr>])\<rparr>\<rparr>"

text \<open>The pair before the public side has acquired its address.\<close>

definition exUnacquired :: portPair where
  "exUnacquired =
     exPair\<lparr>PublicPort := exPublic\<lparr>Subnet := \<lparr>Addr = 0, addressAcquired = False\<rparr>\<rparr>\<rparr>"

text \<open>
  Packets, with addresses in the byte order of the wire (the engine swaps them): a TCP
  packet from 10.0.0.5:40000 to 8.8.8.8:80 with the given flags, the same packet addressed
  to the private side itself (10.0.0.1), and a TCP packet from 8.8.8.8:80 to the public
  address 203.0.113.1 and the given port.
\<close>

definition exEgress :: "8 word \<Rightarrow> Packet" where
  "exEgress flags = \<lparr>EtherSAddr = 0xC1, EtherDAddr = 0xA2, VLANTag = None,
     L3 = L3IPv4 \<lparr>SrcAddr = 0x0500000A, DstAddr = 0x08080808\<rparr>,
     L4Protocol = 6, L4TCP = Some \<lparr>TCPFlags = flags\<rparr>, L4UDP = False, L4ICMP = False,
     L4SrcPort = 40000, L4DstPort = 80\<rparr>"

definition exToUs :: Packet where
  "exToUs = (exEgress 0x02)\<lparr>L3 := L3IPv4 \<lparr>SrcAddr = 0x0500000A, DstAddr = 0x0100000A\<rparr>\<rparr>"

definition exIngress :: "16 word \<Rightarrow> 8 word \<Rightarrow> Packet" where
  "exIngress p flags = \<lparr>EtherSAddr = 0xB1, EtherDAddr = 0xA1, VLANTag = None,
     L3 = L3IPv4 \<lparr>SrcAddr = 0x08080808, DstAddr = 0x017100CB\<rparr>,
     L4Protocol = 6, L4TCP = Some \<lparr>TCPFlags = flags\<rparr>, L4UDP = False, L4ICMP = False,
     L4SrcPort = 80, L4DstPort = p\<rparr>"

text \<open>
  Two workers with a packet each of the same new flow, both after a miss of their lookup on
  the pair with empty tables: the state after the first has allocated and translated, and
  then the second.
\<close>

definition exRace :: "portPair option" where
  "exRace =
     (case PrivateToPublicMiss exConsts 2000 exPair (exEgress 0x02) None
             (IPv4 \<lparr>SrcAddr = 0x0500000A, DstAddr = 0x08080808\<rparr>) 6 (Some \<lparr>TCPFlags = 0x02\<rparr>)
             (Tuple 0x0A000005 40000) True of
        None \<Rightarrow> None
      | Some (d, pp1, pkt1) \<Rightarrow>
          resultPair
            (PrivateToPublicMiss exConsts 2000 pp1 (exEgress 0x02) None
               (IPv4 \<lparr>SrcAddr = 0x0500000A, DstAddr = 0x08080808\<rparr>) 6 (Some \<lparr>TCPFlags = 0x02\<rparr>)
               (Tuple 0x0A000005 40000) True))"

section \<open>Basic facts about the state accessors\<close>

lemma map_of_filter_fst:
  "map_of (filter (\<lambda>e. \<not> P (fst e)) xs) k = (if P k then None else map_of xs k)"
  by (induction xs) auto

lemma translationTable_fields [simp]:
  "translationTable (port\<lparr>arpTable := a\<rparr>) = translationTable port"
  "translationTable (port\<lparr>portmap := m\<rparr>) = translationTable port"
  "translationTable (port\<lparr>portmap6 := m\<rparr>) = translationTable port"
  "translationTable (port\<lparr>Subnet := s4\<rparr>) = translationTable port"
  "translationTable (port\<lparr>Subnet6 := s6\<rparr>) = translationTable port"
  by (simp_all add: fun_eq_iff translationTable_def)

lemma translationTable_arpStore [simp]:
  "translationTable (arpStore port a m) = translationTable port"
  by (simp add: arpStore_def)

lemma translationTable_tableStore [simp]:
  "translationTable (tableStore port protocol k v) =
     (translationTable port)(protocol := (translationTable port protocol)(k \<mapsto> v))"
  by (auto simp: fun_eq_iff translationTable_def tableStore_def map_of_filter_fst[of "\<lambda>x. x = k"])

lemma translationTable_tableDeleteIf [simp]:
  "translationTable (tableDeleteIf port protocol P) =
     (translationTable port)
       (protocol := (\<lambda>k. if P k then None else translationTable port protocol k))"
  by (auto simp: fun_eq_iff translationTable_def tableDeleteIf_def map_of_filter_fst)

lemma table_other_fields [simp]:
  "arpTable (tableStore port protocol k v) = arpTable port"
  "Subnet (tableStore port protocol k v) = Subnet port"
  "Subnet6 (tableStore port protocol k v) = Subnet6 port"
  "portmap (tableStore port protocol k v) = portmap port"
  "portmap6 (tableStore port protocol k v) = portmap6 port"
  "arpTable (tableDeleteIf port protocol P) = arpTable port"
  "Subnet (tableDeleteIf port protocol P) = Subnet port"
  "Subnet6 (tableDeleteIf port protocol P) = Subnet6 port"
  "portmap (tableDeleteIf port protocol P) = portmap port"
  "portmap6 (tableDeleteIf port protocol P) = portmap6 port"
  by (simp_all add: tableStore_def tableDeleteIf_def)

lemma getPublicPortPortmap_set [simp]:
  "getPublicPortPortmap (setPublicPortPortmap pp ipv6 protocol pm) ipv6 protocol = pm"
  by (simp add: getPublicPortPortmap_def setPublicPortPortmap_def getPortmap_def)

lemma setPublicPortPortmap_other [simp]:
  "translationTable (PublicPort (setPublicPortPortmap pp ipv6 protocol pm)) =
     translationTable (PublicPort pp)"
  "PrivatePort (setPublicPortPortmap pp ipv6 protocol pm) = PrivatePort pp"
  "arpTable (PublicPort (setPublicPortPortmap pp ipv6 protocol pm)) = arpTable (PublicPort pp)"
  "Subnet (PublicPort (setPublicPortPortmap pp ipv6 protocol pm)) = Subnet (PublicPort pp)"
  "Subnet6 (PublicPort (setPublicPortPortmap pp ipv6 protocol pm)) = Subnet6 (PublicPort pp)"
  "lastport (setPublicPortPortmap pp ipv6 protocol pm) = lastport pp"
  by (simp_all add: setPublicPortPortmap_def)

lemma forPort_publicTuple [simp]: "forPort ipv6 port (publicTuple pp ipv6 port)"
  by (simp add: forPort_def publicTuple_def)

lemma deleteOldConnection_effect:
  assumes "deleteOldConnection pp ipv6 protocol port = Some pp'"
  shows "translationTable (PublicPort pp') =
           (translationTable (PublicPort pp))
             (protocol := (\<lambda>k. if forPort ipv6 port k then None
                                else translationTable (PublicPort pp) protocol k))"
    and "translationTable (PrivatePort pp') =
           (translationTable (PrivatePort pp))
             (protocol := (\<lambda>v. if \<exists>k. forPort ipv6 port k \<and>
                                       translationTable (PublicPort pp) protocol k = Some v
                                then None else translationTable (PrivatePort pp) protocol v))"
    and "arpTable (PrivatePort pp') = arpTable (PrivatePort pp)"
    and "arpTable (PublicPort pp') = arpTable (PublicPort pp)"
    and "Subnet (PublicPort pp') = Subnet (PublicPort pp)"
    and "Subnet6 (PublicPort pp') = Subnet6 (PublicPort pp)"
    and "lastport pp' = lastport pp"
    and "port < length (getPublicPortPortmap pp ipv6 protocol)"
    and "getPublicPortPortmap pp' ipv6 protocol =
           (getPublicPortPortmap pp ipv6 protocol)[port := portMapEntry0]"
proof -
  let ?pub = "translationTable (PublicPort pp) protocol"
  let ?keys = "map snd (filter (\<lambda>e. forPort ipv6 port (fst e) \<and> ?pub (fst e) = Some (snd e))
                 (tableEntries (PublicPort pp) protocol))"
  have keys: "v \<in> set ?keys \<longleftrightarrow> (\<exists>k. forPort ipv6 port k \<and> ?pub k = Some v)" for v
    by (force simp: translationTable_def dest: map_of_SomeD)
  let ?pp1 = "pp\<lparr>PrivatePort := tableDeleteIf (PrivatePort pp) protocol (\<lambda>k. k \<in> set ?keys),
                   PublicPort := tableDeleteIf (PublicPort pp) protocol (forPort ipv6 port)\<rparr>"
  have pm: "getPublicPortPortmap ?pp1 ipv6 protocol = getPublicPortPortmap pp ipv6 protocol"
    by (simp add: getPublicPortPortmap_def getPortmap_def)
  from assms have inr: "port < length (getPublicPortPortmap pp ipv6 protocol)"
    and pp': "pp' = setPublicPortPortmap ?pp1 ipv6 protocol
                      ((getPublicPortPortmap pp ipv6 protocol)[port := portMapEntry0])"
    unfolding deleteOldConnection_def Let_def pm by (auto split: if_splits)
  show "port < length (getPublicPortPortmap pp ipv6 protocol)" by (rule inr)
  show "translationTable (PublicPort pp') =
           (translationTable (PublicPort pp))
             (protocol := (\<lambda>k. if forPort ipv6 port k then None
                                else translationTable (PublicPort pp) protocol k))"
    by (simp add: pp')
  show "translationTable (PrivatePort pp') =
           (translationTable (PrivatePort pp))
             (protocol := (\<lambda>v. if \<exists>k. forPort ipv6 port k \<and>
                                       translationTable (PublicPort pp) protocol k = Some v
                                then None else translationTable (PrivatePort pp) protocol v))"
    by (simp add: pp' keys del: set_map set_filter)
  show "arpTable (PrivatePort pp') = arpTable (PrivatePort pp)"
    "arpTable (PublicPort pp') = arpTable (PublicPort pp)"
    "Subnet (PublicPort pp') = Subnet (PublicPort pp)"
    "Subnet6 (PublicPort pp') = Subnet6 (PublicPort pp)"
    "lastport pp' = lastport pp"
    "getPublicPortPortmap pp' ipv6 protocol =
           (getPublicPortPortmap pp ipv6 protocol)[port := portMapEntry0]"
    by (simp_all add: pp')
qed

lemma publicTuple_cong:
  "Subnet (PublicPort pp') = Subnet (PublicPort pp) \<Longrightarrow>
   Subnet6 (PublicPort pp') = Subnet6 (PublicPort pp) \<Longrightarrow>
   publicTuple pp' ipv6 port = publicTuple pp ipv6 port"
  by (simp add: publicTuple_def)

lemma word8_not_self: "NOT (d::8 word) \<noteq> d"
proof
  assume "NOT d = d"
  then have "bit (NOT d) 0 = bit d 0" by simp
  then show False by (simp add: bit_not_iff)
qed

lemma otherSide_NOT:
  assumes "pub2pri c = NOT (pri2pub c)" and "d = pri2pub c \<or> d = pub2pri c"
  shows "otherSide c d = NOT d"
  using assms by (auto simp: otherSide_def word8_not_self)

lemma deleteOldConnection_Some:
  assumes "port < length (getPublicPortPortmap pp ipv6 protocol)"
  shows "\<exists>pp'. deleteOldConnection pp ipv6 protocol port = Some pp' \<and>
     translationTable (PublicPort pp') protocol (publicTuple pp ipv6 port) = None \<and>
     (\<forall>v. translationTable (PublicPort pp) protocol (publicTuple pp ipv6 port) = Some v \<longrightarrow>
          translationTable (PrivatePort pp') protocol v = None) \<and>
     getPublicPortPortmap pp' ipv6 protocol =
       (getPublicPortPortmap pp ipv6 protocol)[port := portMapEntry0]"
proof -
  have "deleteOldConnection pp ipv6 protocol port \<noteq> None"
    using assms
    by (cases ipv6)
       (simp_all add: deleteOldConnection_def Let_def getPublicPortPortmap_def getPortmap_def)
  then obtain pp' where d: "deleteOldConnection pp ipv6 protocol port = Some pp'"
    by blast
  have "translationTable (PrivatePort pp') protocol v = None"
    if "translationTable (PublicPort pp) protocol (publicTuple pp ipv6 port) = Some v" for v
    using that forPort_publicTuple[of ipv6 port pp]
    unfolding deleteOldConnection_effect(2)[OF d] by auto
  then show ?thesis
    using d deleteOldConnection_effect(1,9)[OF d] by simp
qed

lemma checkTCPTermination_fin:
  assumes "TCPFlags hdr AND TCPFlagFin \<noteq> 0"
    and "port < length (getPublicPortPortmap pp ipv6 TCPNumber)"
  shows "\<exists>pp'. checkTCPTermination c now pp ipv6 hdr port d = Some pp' \<and>
     translationTable (PublicPort pp') = translationTable (PublicPort pp) \<and>
     PrivatePort pp' = PrivatePort pp \<and>
     Subnet (PublicPort pp') = Subnet (PublicPort pp) \<and>
     Subnet6 (PublicPort pp') = Subnet6 (PublicPort pp) \<and>
     length (getPublicPortPortmap pp' ipv6 TCPNumber) =
       length (getPublicPortPortmap pp ipv6 TCPNumber) \<and>
     getPublicPortPortmap pp' ipv6 TCPNumber ! port =
       (let pme = getPublicPortPortmap pp ipv6 TCPNumber ! port in
        if finCount pme = 0 then pme\<lparr>finCount := 1, terminationDirection := d\<rparr>
        else if finCount pme = 1 \<and> terminationDirection pme = NOT d then pme\<lparr>finCount := 2\<rparr>
        else pme)"
  using assms by (auto simp: checkTCPTermination_def Let_def)

text \<open>The example states, evaluated.\<close>

lemma exMapped_simps [simp]:
  "getPublicPortPortmap (exMapped n d) False protocol =
     [portMapEntry0, exEntry n d, portMapEntry0, portMapEntry0]"
  "translationTable (PublicPort (exMapped n d)) protocol =
     [Tuple 0xCB007101 1 \<mapsto> Tuple 0x0A000005 40000]"
  "translationTable (PrivatePort (exMapped n d)) protocol =
     [Tuple 0x0A000005 40000 \<mapsto> Tuple 0xCB007101 1]"
  "publicTuple (exMapped n d) False (Suc 0) = Tuple 0xCB007101 1"
  "KNIName (PublicPort (exMapped n d)) = []"
  "KNIName (PrivatePort (exMapped n d)) = []"
  by (simp_all add: exMapped_def exPublic_def exPrivate_def getPublicPortPortmap_def
        getPortmap_def publicTuple_def translationTable_def)

lemma exEntry_simps [simp]:
  "lastused (exEntry n d) = 1000" "finCount (exEntry n d) = n"
  "terminationDirection (exEntry n d) = d" "static (exEntry n d) = False"
  by (simp_all add: exEntry_def)

lemma exConsts_simps [simp]:
  "connectionTimeout exConsts = 60" "portReuseSetLastusedTime exConsts = 1"
  "portStart exConsts = 1" "portEnd exConsts = 4"
  "pri2pub exConsts = 0x0f" "pub2pri exConsts = 0xf0"
  by (simp_all add: exConsts_def)

lemma exConsts_sides: "pub2pri exConsts = NOT (pri2pub exConsts)"
  by simp

section \<open>The TCP termination tracker\<close>

lemma deleteOldConnection_slot:
  assumes "deleteOldConnection pp ipv6 protocol port = Some pp'"
  shows "port < length (getPublicPortPortmap pp ipv6 protocol)"
    and "getPublicPortPortmap pp' ipv6 protocol =
           (getPublicPortPortmap pp ipv6 protocol)[port := portMapEntry0]"
  using deleteOldConnection_effect(8,9)[OF assms] by simp_all

lemma checkTCPTermination_progress:
  assumes sides: "pub2pri c = NOT (pri2pub c)"
    and d: "d = pri2pub c \<or> d = pub2pri c"
    and step: "checkTCPTermination c now pp ipv6 hdr port d = Some pp'"
    and inv: "finCount (getPublicPortPortmap pp ipv6 TCPNumber ! port) = 0 \<or>
              finCount (getPublicPortPortmap pp ipv6 TCPNumber ! port) = 1 \<and>
                terminationDirection (getPublicPortPortmap pp ipv6 TCPNumber ! port) \<in> S \<or>
              pri2pub c \<in> S \<and> pub2pri c \<in> S"
  shows "finCount (getPublicPortPortmap pp' ipv6 TCPNumber ! port) = 0 \<or>
         finCount (getPublicPortPortmap pp' ipv6 TCPNumber ! port) = 1 \<and>
           terminationDirection (getPublicPortPortmap pp' ipv6 TCPNumber ! port) \<in>
             S \<union> set (finSides [(now, hdr, d)]) \<or>
         pri2pub c \<in> S \<union> set (finSides [(now, hdr, d)]) \<and>
         pub2pri c \<in> S \<union> set (finSides [(now, hdr, d)])"
proof (cases "TCPFlags hdr AND TCPFlagFin \<noteq> 0")
  case True
  have nn: "NOT (NOT (pri2pub c)) = pri2pub c"
    by simp
  from True step inv d sides nn show ?thesis
    by (auto simp: checkTCPTermination_def Let_def split: if_splits)
next
  case False
  show ?thesis
  proof (cases "TCPFlags hdr AND TCPFlagRst \<noteq> 0")
    case True
    with False step have "deleteOldConnection pp ipv6 TCPNumber port = Some pp'"
      by (simp add: checkTCPTermination_def)
    from deleteOldConnection_slot[OF this] show ?thesis
      by (simp add: portMapEntry0_def)
  next
    case noRst: False
    show ?thesis
    proof (cases "TCPFlags hdr AND TCPFlagAck \<noteq> 0 \<and>
                  finCount (getPublicPortPortmap pp ipv6 TCPNumber ! port) = 2")
      case True
      with False noRst step obtain pp1 where
        del: "deleteOldConnection pp ipv6 TCPNumber port = Some pp1"
        and pp': "pp' = setPublicPortPortmap pp1 ipv6 TCPNumber
                   ((getPublicPortPortmap pp1 ipv6 TCPNumber)
                      [port := (getPublicPortPortmap pp1 ipv6 TCPNumber ! port)
                         \<lparr>lastused := now + portReuseSetLastusedTime c\<rparr>])"
        by (auto simp: checkTCPTermination_def Let_def split: if_splits option.splits)
      from deleteOldConnection_slot[OF del] pp' show ?thesis
        by (simp add: portMapEntry0_def)
    next
      case noAck: False
      with False noRst step have "pp' = pp"
        by (auto simp: checkTCPTermination_def Let_def split: if_splits)
      with inv False show ?thesis
        by auto
    qed
  qed
qed

lemma observe_progress:
  assumes sides: "pub2pri c = NOT (pri2pub c)"
  shows "\<forall>(now, hdr, d) \<in> set os. d = pri2pub c \<or> d = pub2pri c \<Longrightarrow>
    observe c ipv6 port pp os = Some pp' \<Longrightarrow>
    finCount (getPublicPortPortmap pp ipv6 TCPNumber ! port) = 0 \<or>
      finCount (getPublicPortPortmap pp ipv6 TCPNumber ! port) = 1 \<and>
        terminationDirection (getPublicPortPortmap pp ipv6 TCPNumber ! port) \<in> S \<or>
      pri2pub c \<in> S \<and> pub2pri c \<in> S \<Longrightarrow>
    finCount (getPublicPortPortmap pp' ipv6 TCPNumber ! port) = 0 \<or>
      finCount (getPublicPortPortmap pp' ipv6 TCPNumber ! port) = 1 \<and>
        terminationDirection (getPublicPortPortmap pp' ipv6 TCPNumber ! port) \<in>
          S \<union> set (finSides os) \<or>
      pri2pub c \<in> S \<union> set (finSides os) \<and> pub2pri c \<in> S \<union> set (finSides os)"
proof (induction os arbitrary: pp S)
  case Nil
  then show ?case by simp
next
  case (Cons ob os)
  obtain now hdr d where ob: "ob = (now, hdr, d)"
    by (cases ob)
  from Cons.prems(2) ob obtain pp1 where
    step: "checkTCPTermination c now pp ipv6 hdr port d = Some pp1"
    and rest: "observe c ipv6 port pp1 os = Some pp'"
    by (auto split: option.splits)
  have d: "d = pri2pub c \<or> d = pub2pri c"
    using Cons.prems(1) ob by auto
  have all: "\<forall>(now, hdr, d) \<in> set os. d = pri2pub c \<or> d = pub2pri c"
    using Cons.prems(1) by auto
  note inv1 = checkTCPTermination_progress[OF sides d step Cons.prems(3)]
  have eq: "S \<union> set (finSides [(now, hdr, d)]) \<union> set (finSides os) =
            S \<union> set (finSides (ob # os))"
    using ob by auto
  from Cons.IH[OF all rest inv1] show ?case
    unfolding eq .
qed

text \<open>
  C7. A FIN observed from side \<open>d\<close> on a slot of the TCP port map: at \<open>finCount = 0\<close> the
  tracker sets \<open>finCount = 1\<close> and records \<open>d\<close> as the termination side; at \<open>finCount = 1\<close>
  with the termination side the other side, it sets \<open>finCount = 2\<close>; at \<open>finCount = 1\<close> with
  the termination side \<open>d\<close> itself, nothing changes. A FIN brings \<open>finCount\<close> to 2 only
  from 1, and only when it is observed from the side other than the recorded one; and
  whatever sequence of packets the tracker observes from \<open>finCount = 0\<close> on, \<open>finCount\<close> is 2
  at its end only if each of the two sides has observed a FIN in it. The two sides are the
  constants \<open>pri2pub\<close> and \<open>pub2pri\<close>, each the bitwise complement of the other.
\<close>

theorem fin_observation:
  assumes sides: "pub2pri c = NOT (pri2pub c)" "d = pri2pub c \<or> d = pub2pri c"
    and fin: "TCPFlags hdr AND TCPFlagFin \<noteq> 0"
    and inr: "port < length (getPublicPortPortmap pp ipv6 TCPNumber)"
  shows "(\<exists>pp'. checkTCPTermination c now pp ipv6 hdr port d = Some pp' \<and>
     (let pme = getPublicPortPortmap pp ipv6 TCPNumber ! port;
          pme' = getPublicPortPortmap pp' ipv6 TCPNumber ! port in
      (finCount pme = 0 \<longrightarrow> finCount pme' = 1 \<and> terminationDirection pme' = d) \<and>
      (finCount pme = 1 \<and> terminationDirection pme = otherSide c d \<longrightarrow>
         finCount pme' = 2 \<and> terminationDirection pme' = terminationDirection pme) \<and>
      (finCount pme = 1 \<and> terminationDirection pme = d \<longrightarrow> pp' = pp) \<and>
      (finCount pme' = 2 \<longrightarrow>
         finCount pme = 2 \<or> (finCount pme = 1 \<and> terminationDirection pme = otherSide c d)))) \<and>
    (\<forall>os pp2.
       (\<forall>(now, hdr, d) \<in> set os. d = pri2pub c \<or> d = pub2pri c) \<and>
       finCount (getPublicPortPortmap pp ipv6 TCPNumber ! port) = 0 \<and>
       observe c ipv6 port pp os = Some pp2 \<and>
       finCount (getPublicPortPortmap pp2 ipv6 TCPNumber ! port) = 2 \<longrightarrow>
       pri2pub c \<in> set (finSides os) \<and> pub2pri c \<in> set (finSides os))"
proof -
  have o: "otherSide c d = NOT d"
    using sides by (rule otherSide_NOT)
  have step: "\<exists>pp'. checkTCPTermination c now pp ipv6 hdr port d = Some pp' \<and>
     (let pme = getPublicPortPortmap pp ipv6 TCPNumber ! port;
          pme' = getPublicPortPortmap pp' ipv6 TCPNumber ! port in
      (finCount pme = 0 \<longrightarrow> finCount pme' = 1 \<and> terminationDirection pme' = d) \<and>
      (finCount pme = 1 \<and> terminationDirection pme = otherSide c d \<longrightarrow>
         finCount pme' = 2 \<and> terminationDirection pme' = terminationDirection pme) \<and>
      (finCount pme = 1 \<and> terminationDirection pme = d \<longrightarrow> pp' = pp) \<and>
      (finCount pme' = 2 \<longrightarrow>
         finCount pme = 2 \<or> (finCount pme = 1 \<and> terminationDirection pme = otherSide c d)))"
    using fin inr word8_not_self[of d]
    by (auto simp: checkTCPTermination_def Let_def o)
  have trace: "pri2pub c \<in> set (finSides os) \<and> pub2pri c \<in> set (finSides os)"
    if "\<forall>(now, hdr, d) \<in> set os. d = pri2pub c \<or> d = pub2pri c"
      and "finCount (getPublicPortPortmap pp ipv6 TCPNumber ! port) = 0"
      and "observe c ipv6 port pp os = Some pp2"
      and "finCount (getPublicPortPortmap pp2 ipv6 TCPNumber ! port) = 2"
    for os pp2
    using observe_progress[OF sides(1) that(1) that(3), of "{}"] that(2,4)
    by simp
  from step trace show ?thesis
    by blast
qed

theorem fin_observation_witness:
  "pub2pri exConsts = NOT (pri2pub exConsts) \<and>
   TCPFlags \<lparr>TCPFlags = 0x11\<rparr> AND TCPFlagFin \<noteq> 0 \<and>
   1 < length (getPublicPortPortmap (exMapped 0 0) False TCPNumber) \<and>
   finCount (getPublicPortPortmap (exMapped 0 0) False TCPNumber ! 1) = 0 \<and>
   (\<exists>pp'. checkTCPTermination exConsts 2000 (exMapped 0 0) False \<lparr>TCPFlags = 0x11\<rparr> 1
             (pub2pri exConsts) = Some pp' \<and>
          finCount (getPublicPortPortmap pp' False TCPNumber ! 1) = 1 \<and>
          terminationDirection (getPublicPortPortmap pp' False TCPNumber ! 1) = pub2pri exConsts)"
proof -
  have fin: "TCPFlags \<lparr>TCPFlags = 0x11\<rparr> AND TCPFlagFin \<noteq> 0"
    by (simp add: TCPFlagFin_def)
  have inr: "1 < length (getPublicPortPortmap (exMapped 0 0) False TCPNumber)"
    by simp
  have zero: "finCount (getPublicPortPortmap (exMapped 0 0) False TCPNumber ! 1) = 0"
    by simp
  have d: "pub2pri exConsts = pri2pub exConsts \<or> pub2pri exConsts = pub2pri exConsts"
    by simp
  from fin_observation[OF exConsts_sides d fin inr, of 2000] zero
  have "\<exists>pp'. checkTCPTermination exConsts 2000 (exMapped 0 0) False \<lparr>TCPFlags = 0x11\<rparr> 1
             (pub2pri exConsts) = Some pp' \<and>
          finCount (getPublicPortPortmap pp' False TCPNumber ! 1) = 1 \<and>
          terminationDirection (getPublicPortPortmap pp' False TCPNumber ! 1) = pub2pri exConsts"
    by (auto simp: Let_def)
  with fin inr zero exConsts_sides show ?thesis
    by blast
qed

text \<open>
  C8. A packet with both FIN and ACK set is processed as a FIN, not as an ACK: the tracker
  does with it exactly what it does with a packet that has FIN alone. At \<open>finCount = 0\<close> it
  sets \<open>finCount = 1\<close> and records the observing side; at \<open>finCount = 1\<close> with the other side
  recorded it sets \<open>finCount = 2\<close>; otherwise it changes nothing. It leaves both translation
  tables and the slot's \<open>lastused\<close> as they are, whatever the value of \<open>finCount\<close>: even at
  \<open>finCount = 2\<close> it neither deletes the mapping nor sets the hold-down time. The branch
  that deletes on ACK is taken only when the FIN flag is clear.
\<close>

theorem fin_ack_is_fin:
  assumes "TCPFlags hdr AND TCPFlagFin \<noteq> 0" "TCPFlags hdr AND TCPFlagAck \<noteq> 0"
    and "port < length (getPublicPortPortmap pp ipv6 TCPNumber)"
  shows "\<exists>pp'. checkTCPTermination c now pp ipv6 hdr port d = Some pp' \<and>
     translationTable (PublicPort pp') = translationTable (PublicPort pp) \<and>
     translationTable (PrivatePort pp') = translationTable (PrivatePort pp) \<and>
     lastused (getPublicPortPortmap pp' ipv6 TCPNumber ! port) =
       lastused (getPublicPortPortmap pp ipv6 TCPNumber ! port) \<and>
     (finCount (getPublicPortPortmap pp ipv6 TCPNumber ! port) = 2 \<longrightarrow> pp' = pp) \<and>
     (finCount (getPublicPortPortmap pp ipv6 TCPNumber ! port) = 0 \<longrightarrow>
        finCount (getPublicPortPortmap pp' ipv6 TCPNumber ! port) = 1 \<and>
        terminationDirection (getPublicPortPortmap pp' ipv6 TCPNumber ! port) = d) \<and>
     (finCount (getPublicPortPortmap pp ipv6 TCPNumber ! port) = 1 \<and>
      terminationDirection (getPublicPortPortmap pp ipv6 TCPNumber ! port) = NOT d \<longrightarrow>
        finCount (getPublicPortPortmap pp' ipv6 TCPNumber ! port) = 2) \<and>
     (finCount (getPublicPortPortmap pp ipv6 TCPNumber ! port) = 1 \<and>
      terminationDirection (getPublicPortPortmap pp ipv6 TCPNumber ! port) \<noteq> NOT d \<longrightarrow>
        pp' = pp) \<and>
     checkTCPTermination c now pp ipv6 hdr port d =
       checkTCPTermination c now pp ipv6 \<lparr>TCPFlags = TCPFlagFin\<rparr> port d"
  using assms
  by (auto simp: checkTCPTermination_def Let_def TCPFlagFin_def)

theorem fin_ack_is_fin_witness:
  "TCPFlags \<lparr>TCPFlags = 0x11\<rparr> AND TCPFlagFin \<noteq> 0 \<and>
   TCPFlags \<lparr>TCPFlags = 0x11\<rparr> AND TCPFlagAck \<noteq> 0 \<and>
   1 < length (getPublicPortPortmap (exMapped 2 0x0f) False TCPNumber) \<and>
   finCount (getPublicPortPortmap (exMapped 2 0x0f) False TCPNumber ! 1) = 2 \<and>
   checkTCPTermination exConsts 2000 (exMapped 2 0x0f) False \<lparr>TCPFlags = 0x11\<rparr> 1 0xf0 =
     Some (exMapped 2 0x0f) \<and>
   1 < length (getPublicPortPortmap (exMapped 1 0x0f) False TCPNumber) \<and>
   finCount (getPublicPortPortmap (exMapped 1 0x0f) False TCPNumber ! 1) = 1 \<and>
   terminationDirection (getPublicPortPortmap (exMapped 1 0x0f) False TCPNumber ! 1) = NOT 0xf0 \<and>
   (\<exists>pp'. checkTCPTermination exConsts 2000 (exMapped 1 0x0f) False \<lparr>TCPFlags = 0x11\<rparr> 1 0xf0 =
            Some pp' \<and>
          finCount (getPublicPortPortmap pp' False TCPNumber ! 1) = 2)"
proof -
  have fin: "TCPFlags \<lparr>TCPFlags = 0x11\<rparr> AND TCPFlagFin \<noteq> 0"
    by (simp add: TCPFlagFin_def)
  have ack: "TCPFlags \<lparr>TCPFlags = 0x11\<rparr> AND TCPFlagAck \<noteq> 0"
    by (simp add: TCPFlagAck_def)
  have inr: "1 < length (getPublicPortPortmap (exMapped 2 0x0f) False TCPNumber)"
    by simp
  have two: "finCount (getPublicPortPortmap (exMapped 2 0x0f) False TCPNumber ! 1) = 2"
    by simp
  from fin_ack_is_fin[OF fin ack inr, of exConsts 2000 "0xf0"] two
  have same: "checkTCPTermination exConsts 2000 (exMapped 2 0x0f) False \<lparr>TCPFlags = 0x11\<rparr> 1 0xf0 =
     Some (exMapped 2 0x0f)"
    by auto
  have inr1: "1 < length (getPublicPortPortmap (exMapped 1 0x0f) False TCPNumber)"
    by simp
  have one: "finCount (getPublicPortPortmap (exMapped 1 0x0f) False TCPNumber ! 1) = 1"
    "terminationDirection (getPublicPortPortmap (exMapped 1 0x0f) False TCPNumber ! 1) = NOT 0xf0"
    by simp_all
  from fin_ack_is_fin[OF fin ack inr1, of exConsts 2000 "0xf0"] one
  have "\<exists>pp'. checkTCPTermination exConsts 2000 (exMapped 1 0x0f) False \<lparr>TCPFlags = 0x11\<rparr> 1 0xf0 =
            Some pp' \<and>
          finCount (getPublicPortPortmap pp' False TCPNumber ! 1) = 2"
    by auto
  with fin ack inr two same inr1 one show ?thesis
    by blast
qed

text \<open>
  C5, as stated, fails: a packet with RST and FIN both set is processed as a FIN. At
  \<open>finCount = 1\<close>, set by the private side, such a packet from the public side only moves
  \<open>finCount\<close> to 2; both table entries of the mapping stay.
\<close>

theorem rst_with_fin_counterexample:
  "TCPFlags \<lparr>TCPFlags = 0x05\<rparr> AND TCPFlagRst \<noteq> 0 \<and>
   \<not> static (getPublicPortPortmap (exMapped 1 0x0f) False TCPNumber ! 1) \<and>
   checkTCPTermination exConsts 2000 (exMapped 1 0x0f) False \<lparr>TCPFlags = 0x05\<rparr> 1 0xf0 =
     Some (setPublicPortPortmap (exMapped 1 0x0f) False TCPNumber
             [portMapEntry0, exEntry 2 0x0f, portMapEntry0, portMapEntry0]) \<and>
   translationTable
     (PublicPort (setPublicPortPortmap (exMapped 1 0x0f) False TCPNumber
                    [portMapEntry0, exEntry 2 0x0f, portMapEntry0, portMapEntry0]))
     TCPNumber (Tuple 0xCB007101 1) = Some (Tuple 0x0A000005 40000) \<and>
   translationTable
     (PrivatePort (setPublicPortPortmap (exMapped 1 0x0f) False TCPNumber
                     [portMapEntry0, exEntry 2 0x0f, portMapEntry0, portMapEntry0]))
     TCPNumber (Tuple 0x0A000005 40000) = Some (Tuple 0xCB007101 1)"
  by (simp add: checkTCPTermination_def TCPFlagRst_def TCPFlagFin_def Let_def exEntry_def)

text \<open>
  C5, amended. A packet with RST set and FIN clear deletes the mapping of the port at once,
  whatever the value of \<open>finCount\<close> and whatever its other flags: the public table has no
  entry under the public side's tuple for the port, the private table has none under the
  tuple it was mapped to, and the slot is the zero entry, with no hold-down time.
\<close>

theorem rst_deletes:
  assumes "TCPFlags hdr AND TCPFlagRst \<noteq> 0" "TCPFlags hdr AND TCPFlagFin = 0"
    and "port < length (getPublicPortPortmap pp ipv6 TCPNumber)"
  shows "\<exists>pp'. checkTCPTermination c now pp ipv6 hdr port d = Some pp' \<and>
     translationTable (PublicPort pp') TCPNumber (publicTuple pp ipv6 port) = None \<and>
     (\<forall>v. translationTable (PublicPort pp) TCPNumber (publicTuple pp ipv6 port) = Some v \<longrightarrow>
          translationTable (PrivatePort pp') TCPNumber v = None) \<and>
     getPublicPortPortmap pp' ipv6 TCPNumber ! port = portMapEntry0"
  using assms deleteOldConnection_Some[of port pp ipv6 TCPNumber]
  by (auto simp: checkTCPTermination_def)

theorem rst_deletes_witness:
  "TCPFlags \<lparr>TCPFlags = 0x14\<rparr> AND TCPFlagRst \<noteq> 0 \<and>
   TCPFlags \<lparr>TCPFlags = 0x14\<rparr> AND TCPFlagFin = 0 \<and>
   1 < length (getPublicPortPortmap (exMapped 1 0x0f) False TCPNumber) \<and>
   translationTable (PublicPort (exMapped 1 0x0f)) TCPNumber (Tuple 0xCB007101 1) =
     Some (Tuple 0x0A000005 40000) \<and>
   (\<exists>pp'. checkTCPTermination exConsts 2000 (exMapped 1 0x0f) False \<lparr>TCPFlags = 0x14\<rparr> 1 0xf0 =
            Some pp' \<and>
          translationTable (PublicPort pp') TCPNumber (Tuple 0xCB007101 1) = None \<and>
          translationTable (PrivatePort pp') TCPNumber (Tuple 0x0A000005 40000) = None \<and>
          getPublicPortPortmap pp' False TCPNumber ! 1 = portMapEntry0)"
proof -
  have rst: "TCPFlags \<lparr>TCPFlags = 0x14\<rparr> AND TCPFlagRst \<noteq> 0"
    by (simp add: TCPFlagRst_def)
  have nofin: "TCPFlags \<lparr>TCPFlags = 0x14\<rparr> AND TCPFlagFin = 0"
    by (simp add: TCPFlagFin_def)
  have inr: "1 < length (getPublicPortPortmap (exMapped 1 0x0f) False TCPNumber)"
    by simp
  have m: "translationTable (PublicPort (exMapped 1 0x0f)) TCPNumber (Tuple 0xCB007101 1) =
     Some (Tuple 0x0A000005 40000)"
    by simp
  from rst_deletes[OF rst nofin inr, of exConsts 2000 "0xf0"] m
  have "\<exists>pp'. checkTCPTermination exConsts 2000 (exMapped 1 0x0f) False \<lparr>TCPFlags = 0x14\<rparr> 1 0xf0 =
            Some pp' \<and>
          translationTable (PublicPort pp') TCPNumber (Tuple 0xCB007101 1) = None \<and>
          translationTable (PrivatePort pp') TCPNumber (Tuple 0x0A000005 40000) = None \<and>
          getPublicPortPortmap pp' False TCPNumber ! 1 = portMapEntry0"
    by auto
  with rst nofin inr m show ?thesis by blast
qed

text \<open>
  C4, as stated, fails when the third packet, with ACK set and FIN clear, also has RST set:
  the tracker tests RST before ACK. After a FIN from the private side and a FIN from the
  public side (\<open>finCount = 2\<close>), such a packet deletes the mapping with no hold-down: the slot
  is the zero entry, free for allocation at once.
\<close>

theorem ack_with_rst_counterexample:
  "TCPFlags \<lparr>TCPFlags = 0x14\<rparr> AND TCPFlagAck \<noteq> 0 \<and>
   TCPFlags \<lparr>TCPFlags = 0x14\<rparr> AND TCPFlagFin = 0 \<and>
   slotIn (observe exConsts False 1 (exMapped 0 0)
             [(2000, \<lparr>TCPFlags = 0x11\<rparr>, 0x0f), (2001, \<lparr>TCPFlags = 0x11\<rparr>, 0xf0)])
     False TCPNumber 1 = Some (exEntry 2 0x0f) \<and>
   slotIn (observe exConsts False 1 (exMapped 0 0)
             [(2000, \<lparr>TCPFlags = 0x11\<rparr>, 0x0f), (2001, \<lparr>TCPFlags = 0x11\<rparr>, 0xf0),
              (2002, \<lparr>TCPFlags = 0x14\<rparr>, 0x0f)])
     False TCPNumber 1 = Some portMapEntry0 \<and>
   lastused portMapEntry0 \<noteq> 2002 + portReuseSetLastusedTime exConsts \<and>
   portFree exConsts 2002 portMapEntry0"
  by code_simp

text \<open>
  C4, amended. Starting from \<open>finCount = 0\<close> on a non-static slot whose port has a mapping,
  a FIN observed from the private side, then a FIN observed from the public side, then a
  packet with ACK set and neither FIN nor RST, observed from either side, delete both table
  entries of the mapping and leave the slot's \<open>lastused\<close> at the time of the ACK plus
  \<open>portReuseSetLastusedTime\<close>; until that time has passed the slot is not free for
  allocation. The two sides are bitwise complements and the connection timeout is not
  negative.
\<close>

theorem tcp_close_sequence:
  assumes sides: "pub2pri c = NOT (pri2pub c)"
    and timeout: "0 \<le> connectionTimeout c"
    and f1: "TCPFlags h1 AND TCPFlagFin \<noteq> 0"
    and f2: "TCPFlags h2 AND TCPFlagFin \<noteq> 0"
    and f3: "TCPFlags h3 AND TCPFlagFin = 0" "TCPFlags h3 AND TCPFlagRst = 0"
            "TCPFlags h3 AND TCPFlagAck \<noteq> 0"
    and inr: "port < length (getPublicPortPortmap pp ipv6 TCPNumber)"
    and start: "finCount (getPublicPortPortmap pp ipv6 TCPNumber ! port) = 0"
               "\<not> static (getPublicPortPortmap pp ipv6 TCPNumber ! port)"
    and mapping: "translationTable (PublicPort pp) TCPNumber (publicTuple pp ipv6 port) = Some priv"
  shows "\<exists>pp3.
     observe c ipv6 port pp [(now1, h1, pri2pub c), (now2, h2, pub2pri c), (now3, h3, d3)] =
       Some pp3 \<and>
     translationTable (PublicPort pp3) TCPNumber (publicTuple pp ipv6 port) = None \<and>
     translationTable (PrivatePort pp3) TCPNumber priv = None \<and>
     lastused (getPublicPortPortmap pp3 ipv6 TCPNumber ! port) =
       now3 + portReuseSetLastusedTime c \<and>
     (\<forall>t. t \<le> now3 + portReuseSetLastusedTime c \<longrightarrow>
          \<not> portFree c t (getPublicPortPortmap pp3 ipv6 TCPNumber ! port))"
proof -
  let ?pm = "\<lambda>s. getPublicPortPortmap s ipv6 TCPNumber"
  obtain pp1 where 1: "checkTCPTermination c now1 pp ipv6 h1 port (pri2pub c) = Some pp1"
    and t1: "translationTable (PublicPort pp1) = translationTable (PublicPort pp)"
            "PrivatePort pp1 = PrivatePort pp"
            "Subnet (PublicPort pp1) = Subnet (PublicPort pp)"
            "Subnet6 (PublicPort pp1) = Subnet6 (PublicPort pp)"
    and l1: "length (?pm pp1) = length (?pm pp)"
    and e1: "finCount (?pm pp1 ! port) = 1" "terminationDirection (?pm pp1 ! port) = pri2pub c"
    using checkTCPTermination_fin[OF f1 inr, of c now1 "pri2pub c"] start
    by (auto simp: Let_def)
  have inr1: "port < length (?pm pp1)"
    using inr l1 by simp
  obtain pp2 where 2: "checkTCPTermination c now2 pp1 ipv6 h2 port (pub2pri c) = Some pp2"
    and t2: "translationTable (PublicPort pp2) = translationTable (PublicPort pp1)"
            "PrivatePort pp2 = PrivatePort pp1"
            "Subnet (PublicPort pp2) = Subnet (PublicPort pp1)"
            "Subnet6 (PublicPort pp2) = Subnet6 (PublicPort pp1)"
    and l2: "length (?pm pp2) = length (?pm pp1)"
    and e2: "finCount (?pm pp2 ! port) = 2"
    using checkTCPTermination_fin[OF f2 inr1, of c now2 "pub2pri c"] e1 sides
    by (auto simp: Let_def)
  have inr2: "port < length (?pm pp2)"
    using inr1 l2 by simp
  have key: "publicTuple pp2 ipv6 port = publicTuple pp ipv6 port"
    using t1 t2 by (simp add: publicTuple_def)
  obtain pp' where d: "deleteOldConnection pp2 ipv6 TCPNumber port = Some pp'"
    and dpub: "translationTable (PublicPort pp') TCPNumber (publicTuple pp2 ipv6 port) = None"
    and dpri: "\<forall>v. translationTable (PublicPort pp2) TCPNumber (publicTuple pp2 ipv6 port) = Some v
                 \<longrightarrow> translationTable (PrivatePort pp') TCPNumber v = None"
    and dpm: "?pm pp' = (?pm pp2)[port := portMapEntry0]"
    using deleteOldConnection_Some[OF inr2] by blast
  let ?pp3 = "setPublicPortPortmap pp' ipv6 TCPNumber
                ((?pm pp')[port := (?pm pp' ! port)
                   \<lparr>lastused := now3 + portReuseSetLastusedTime c\<rparr>])"
  have 3: "checkTCPTermination c now3 pp2 ipv6 h3 port d3 = Some ?pp3"
    using f3 inr2 e2 d by (simp add: checkTCPTermination_def Let_def)
  have run: "observe c ipv6 port pp [(now1, h1, pri2pub c), (now2, h2, pub2pri c), (now3, h3, d3)] =
             Some ?pp3"
    using 1 2 3 by simp
  have priv: "translationTable (PrivatePort pp') TCPNumber priv = None"
    using dpri mapping t1 t2 key by simp
  have ent: "?pm ?pp3 ! port = portMapEntry0\<lparr>lastused := now3 + portReuseSetLastusedTime c\<rparr>"
    using inr2 dpm by simp
  show ?thesis
    using run dpub priv key ent timeout
    by (auto simp: portFree_def portMapEntry0_def)
qed

theorem tcp_close_sequence_witness:
  "pub2pri exConsts = NOT (pri2pub exConsts) \<and> 0 \<le> connectionTimeout exConsts \<and>
   TCPFlags \<lparr>TCPFlags = 0x11\<rparr> AND TCPFlagFin \<noteq> 0 \<and>
   TCPFlags \<lparr>TCPFlags = 0x10\<rparr> AND TCPFlagFin = 0 \<and>
   TCPFlags \<lparr>TCPFlags = 0x10\<rparr> AND TCPFlagRst = 0 \<and>
   TCPFlags \<lparr>TCPFlags = 0x10\<rparr> AND TCPFlagAck \<noteq> 0 \<and>
   1 < length (getPublicPortPortmap (exMapped 0 0) False TCPNumber) \<and>
   finCount (getPublicPortPortmap (exMapped 0 0) False TCPNumber ! 1) = 0 \<and>
   \<not> static (getPublicPortPortmap (exMapped 0 0) False TCPNumber ! 1) \<and>
   translationTable (PublicPort (exMapped 0 0)) TCPNumber (publicTuple (exMapped 0 0) False 1) =
     Some (Tuple 0x0A000005 40000) \<and>
   (\<exists>pp3.
      observe exConsts False 1 (exMapped 0 0)
        [(2000, \<lparr>TCPFlags = 0x11\<rparr>, 0x0f), (2001, \<lparr>TCPFlags = 0x11\<rparr>, 0xf0),
         (2002, \<lparr>TCPFlags = 0x10\<rparr>, 0x0f)] = Some pp3 \<and>
      translationTable (PublicPort pp3) TCPNumber (Tuple 0xCB007101 1) = None \<and>
      translationTable (PrivatePort pp3) TCPNumber (Tuple 0x0A000005 40000) = None \<and>
      lastused (getPublicPortPortmap pp3 False TCPNumber ! 1) = 2003 \<and>
      \<not> portFree exConsts 2003 (getPublicPortPortmap pp3 False TCPNumber ! 1))"
proof -
  have t: "0 \<le> connectionTimeout exConsts"
    by simp
  have f1: "TCPFlags \<lparr>TCPFlags = 0x11\<rparr> AND TCPFlagFin \<noteq> 0"
    by (simp add: TCPFlagFin_def)
  have f3: "TCPFlags \<lparr>TCPFlags = 0x10\<rparr> AND TCPFlagFin = 0"
    "TCPFlags \<lparr>TCPFlags = 0x10\<rparr> AND TCPFlagRst = 0"
    "TCPFlags \<lparr>TCPFlags = 0x10\<rparr> AND TCPFlagAck \<noteq> 0"
    by (simp_all add: TCPFlagFin_def TCPFlagRst_def TCPFlagAck_def)
  have inr: "1 < length (getPublicPortPortmap (exMapped 0 0) False TCPNumber)"
    by simp
  have start: "finCount (getPublicPortPortmap (exMapped 0 0) False TCPNumber ! 1) = 0"
    "\<not> static (getPublicPortPortmap (exMapped 0 0) False TCPNumber ! 1)"
    by simp_all
  have m: "translationTable (PublicPort (exMapped 0 0)) TCPNumber
             (publicTuple (exMapped 0 0) False 1) = Some (Tuple 0x0A000005 40000)"
    by simp
  from tcp_close_sequence[OF exConsts_sides t f1 f1 f3 inr start m, of 2000 2001 2002 "0x0f"]
  have "\<exists>pp3.
      observe exConsts False 1 (exMapped 0 0)
        [(2000, \<lparr>TCPFlags = 0x11\<rparr>, 0x0f), (2001, \<lparr>TCPFlags = 0x11\<rparr>, 0xf0),
         (2002, \<lparr>TCPFlags = 0x10\<rparr>, 0x0f)] = Some pp3 \<and>
      translationTable (PublicPort pp3) TCPNumber (Tuple 0xCB007101 1) = None \<and>
      translationTable (PrivatePort pp3) TCPNumber (Tuple 0x0A000005 40000) = None \<and>
      lastused (getPublicPortPortmap pp3 False TCPNumber ! 1) = 2003 \<and>
      \<not> portFree exConsts 2003 (getPublicPortPortmap pp3 False TCPNumber ! 1)"
    by (simp only: exConsts_simps exMapped_simps One_nat_def) force
  with exConsts_sides t f1 f3 inr start m show ?thesis
    by blast
qed

section \<open>The two entry points up to the lookup\<close>

lemma parsePacketAndCheckARP_IP:
  "packetIP pkt = Some ip \<Longrightarrow> parsePacketAndCheckARP h port pkt = (DirSEND, VLANTag pkt, Some ip)"
  by (auto simp: packetIP_def parsePacketAndCheckARP_def ParseL3CheckVLAN_def
        GetIPv4CheckVLAN_def GetIPv6CheckVLAN_def split: l3.splits)

lemma ingress_reaches_lookup:
  assumes "packetIP pkt = Some ip"
    and "passesHandlers h (PublicPort pp) pkt ip (pub2priKeyOf ip (L4DstPort pkt))"
  shows "PublicToPrivateTranslation c h now pp pkt =
         PublicToPrivateLookup c now pp pkt (VLANTag pkt) ip (L4Protocol pkt) (L4TCP pkt)
           (L4DstPort pkt) (pub2priKeyOf ip (L4DstPort pkt))"
  using assms
  by (auto simp: PublicToPrivateTranslation_def parsePacketAndCheckARP_IP ParseAllKnownL4_def
        passesHandlers_def Let_def)

lemma ingress_early_return:
  assumes "packetIP pkt = Some ip"
    and "\<not> passesHandlers h (PublicPort pp) pkt ip (pub2priKeyOf ip (L4DstPort pkt))"
  shows "\<exists>d. PublicToPrivateTranslation c h now pp pkt = Some (d, pp, pkt) \<and> d \<noteq> DirSEND"
  using assms
  by (auto simp: PublicToPrivateTranslation_def parsePacketAndCheckARP_IP ParseAllKnownL4_def
        passesHandlers_def Let_def)

lemma ingress_lookup_miss:
  assumes "translationTable (PublicPort pp) protocol key = None"
  shows "PublicToPrivateLookup c now pp pkt pktVLAN ip protocol pktTCP portNumber key =
         Some (if KNIName (PublicPort pp) \<noteq> [] \<and> acquiredFor (PublicPort pp) ip
               then DirKNI else DirDROP,
               pp\<lparr>PublicPort := arpStore (PublicPort pp) (srcAddrOf ip) (EtherSAddr pkt)\<rparr>, pkt)"
  using assms
  by (cases ip) (simp_all add: PublicToPrivateLookup_def Let_def acquiredFor_def srcAddrOf_def
        arpStore_def)

lemma egress_reaches_lookup:
  assumes "packetIP pkt = Some ip"
    and "passesHandlers h (PrivatePort pp) pkt ip (pri2pubKeyOf ip (L4SrcPort pkt))"
    and "\<not> redirectedToHost (PrivatePort pp) ip"
  shows "PrivateToPublicTranslation c h now pp pkt =
         PrivateToPublicLookup c now pp pkt (VLANTag pkt) ip (L4Protocol pkt) (L4TCP pkt)
           (pri2pubKeyOf ip (L4SrcPort pkt)) (acquiredFor (PrivatePort pp) ip)"
  using assms
  by (auto simp: PrivateToPublicTranslation_def parsePacketAndCheckARP_IP ParseAllKnownL4_def
        passesHandlers_def redirectedToHost_def acquiredFor_def Let_def)

lemma egress_redirected:
  assumes "packetIP pkt = Some ip"
    and "passesHandlers h (PrivatePort pp) pkt ip (pri2pubKeyOf ip (L4SrcPort pkt))"
    and "redirectedToHost (PrivatePort pp) ip"
  shows "PrivateToPublicTranslation c h now pp pkt = Some (DirKNI, pp, pkt)"
  using assms
  by (auto simp: PrivateToPublicTranslation_def parsePacketAndCheckARP_IP ParseAllKnownL4_def
        passesHandlers_def redirectedToHost_def acquiredFor_def Let_def)

text \<open>The example packets and sides, evaluated.\<close>

lemma exPacket_simps [simp]:
  "packetIP (exEgress flags) = Some (IPv4 \<lparr>SrcAddr = 0x0500000A, DstAddr = 0x08080808\<rparr>)"
  "packetIP exToUs = Some (IPv4 \<lparr>SrcAddr = 0x0500000A, DstAddr = 0x0100000A\<rparr>)"
  "packetIP (exIngress p flags) = Some (IPv4 \<lparr>SrcAddr = 0x08080808, DstAddr = 0x017100CB\<rparr>)"
  "L4Protocol (exEgress flags) = 6" "L4Protocol exToUs = 6" "L4Protocol (exIngress p flags) = 6"
  "L4TCP (exEgress flags) = Some \<lparr>TCPFlags = flags\<rparr>" "L4TCP exToUs = Some \<lparr>TCPFlags = 0x02\<rparr>"
  "L4TCP (exIngress p flags) = Some \<lparr>TCPFlags = flags\<rparr>"
  "L4SrcPort (exEgress flags) = 40000" "L4SrcPort exToUs = 40000"
  "L4DstPort (exIngress p flags) = p"
  "VLANTag (exEgress flags) = None" "VLANTag exToUs = None" "VLANTag (exIngress p flags) = None"
  "EtherSAddr (exEgress flags) = 0xC1" "EtherSAddr exToUs = 0xC1"
  "EtherSAddr (exIngress p flags) = 0xB1"
  by (simp_all add: exEgress_def exToUs_def exIngress_def packetIP_def)

lemma exPacket_passes [simp]:
  "passesHandlers exHandlers port (exEgress flags) ip key"
  "passesHandlers exHandlers port exToUs ip key"
  "passesHandlers exHandlers port (exIngress p flags) ip key"
  by (simp_all add: passesHandlers_def exHandlers_def exEgress_def exToUs_def exIngress_def)

lemma SwapBytesIPv4Addr_examples [simp]:
  "SwapBytesIPv4Addr 0x0500000A = 0x0A000005"
  "SwapBytesIPv4Addr 0x0100000A = 0x0A000001"
  "SwapBytesIPv4Addr 0x08080808 = 0x08080808"
  "SwapBytesIPv4Addr 0x017100CB = 0xCB007101"
  "SwapBytesIPv4Addr 0xCB007101 = 0x017100CB"
  "SwapBytesIPv4Addr 0x0A000005 = 0x0500000A"
  by (simp_all add: SwapBytesIPv4Addr_def)

section \<open>Ingress misses\<close>

text \<open>
  C1. An ingress IP packet whose key (destination address, destination port) has no entry
  in the public table of the packet's protocol is answered with \<open>DirDROP\<close> or \<open>DirKNI\<close>, never
  with \<open>DirSEND\<close>, and both translation tables are left as they are.
\<close>

theorem ingress_miss_never_forwards:
  assumes ip: "packetIP pkt = Some ip"
    and miss: "translationTable (PublicPort pp) (L4Protocol pkt)
                 (pub2priKeyOf ip (L4DstPort pkt)) = None"
  shows "\<exists>d pp' pkt'. PublicToPrivateTranslation c h now pp pkt = Some (d, pp', pkt') \<and>
           (d = DirDROP \<or> d = DirKNI) \<and>
           translationTable (PublicPort pp') = translationTable (PublicPort pp) \<and>
           translationTable (PrivatePort pp') = translationTable (PrivatePort pp)"
proof (cases "passesHandlers h (PublicPort pp) pkt ip (pub2priKeyOf ip (L4DstPort pkt))")
  case True
  show ?thesis
    unfolding ingress_reaches_lookup[OF ip True] ingress_lookup_miss[OF miss]
    by (simp add: arpStore_def)
next
  case False
  from ingress_early_return[OF ip False, of c now]
  obtain d where "PublicToPrivateTranslation c h now pp pkt = Some (d, pp, pkt)" "d \<noteq> DirSEND"
    by blast
  then show ?thesis
    by (cases d) simp_all
qed

theorem ingress_miss_never_forwards_witness:
  "packetIP (exIngress 2 0x10) = Some (IPv4 \<lparr>SrcAddr = 0x08080808, DstAddr = 0x017100CB\<rparr>) \<and>
   translationTable (PublicPort (exMapped 0 0)) (L4Protocol (exIngress 2 0x10))
     (pub2priKeyOf (IPv4 \<lparr>SrcAddr = 0x08080808, DstAddr = 0x017100CB\<rparr>)
        (L4DstPort (exIngress 2 0x10))) = None \<and>
   (\<exists>pp' pkt'. PublicToPrivateTranslation exConsts exHandlers 2000 (exMapped 0 0)
                 (exIngress 2 0x10) = Some (DirDROP, pp', pkt') \<and>
              translationTable (PublicPort pp') = translationTable (PublicPort (exMapped 0 0)) \<and>
              translationTable (PrivatePort pp') = translationTable (PrivatePort (exMapped 0 0)))"
proof -
  have ip: "packetIP (exIngress 2 0x10) = Some (IPv4 \<lparr>SrcAddr = 0x08080808, DstAddr = 0x017100CB\<rparr>)"
    by simp
  have miss: "translationTable (PublicPort (exMapped 0 0)) (L4Protocol (exIngress 2 0x10))
     (pub2priKeyOf (IPv4 \<lparr>SrcAddr = 0x08080808, DstAddr = 0x017100CB\<rparr>)
        (L4DstPort (exIngress 2 0x10))) = None"
    by (simp add: pub2priKeyOf_def)
  have kni: "PublicToPrivateTranslation exConsts exHandlers 2000 (exMapped 0 0) (exIngress 2 0x10) \<noteq>
             Some (DirKNI, pp', pkt')" for pp' pkt'
    unfolding ingress_reaches_lookup[OF ip exPacket_passes(3)] ingress_lookup_miss[OF miss]
    by simp
  from ingress_miss_never_forwards[OF ip miss, of exConsts exHandlers 2000] kni
  show ?thesis
    using ip miss by blast
qed

section \<open>Egress misses\<close>

lemma portPool_set: "set (portPool c cursor) = {portStart c ..< portEnd c}"
  by (auto simp: portPool_def)

lemma allocNewPort_exhausted:
  assumes "poolExhausted c now (getPublicPortPortmap pp ipv6 protocol)"
  shows "allocNewPort c now pp ipv6 protocol = Some (pp, Inl PortsExhausted)"
proof -
  have "find (\<lambda>p. p < length (getPublicPortPortmap pp ipv6 protocol) \<and>
                  portFree c now (getPublicPortPortmap pp ipv6 protocol ! p))
          (portPool c (lastport pp ipv6 protocol)) = None"
    using assms by (auto simp: find_None_iff portPool_set poolExhausted_def)
  then show ?thesis
    by (simp add: allocNewPort_def Let_def)
qed

lemma allocateNewEgressConnection_exhausted:
  assumes "poolExhausted c now (getPublicPortPortmap pp ipv6 protocol)"
  shows "allocateNewEgressConnection c now pp ipv6 protocol privEntry =
         Some (pp, Inl PortsExhausted)"
  by (simp add: allocateNewEgressConnection_def allocNewPort_exhausted[OF assms])

lemma PrivateToPublicMiss_eq:
  "PrivateToPublicMiss c now pp pkt pktVLAN ip protocol pktTCP key acquired =
     (let pp1 = pp\<lparr>PrivatePort := arpStore (PrivatePort pp) (srcAddrOf ip) (EtherSAddr pkt)\<rparr> in
      if \<not> acquired \<or> \<not> acquiredFor (PublicPort pp) ip then Some (DirDROP, pp1, pkt)
      else
        (case allocateNewEgressConnection c now pp1 (isIPv6 ip) protocol key of
           None \<Rightarrow> None
         | Some (pp2, Inl err) \<Rightarrow> Some (DirDROP, pp2, pkt)
         | Some (pp2, Inr (v4addr, v6addr, newPort)) \<Rightarrow>
             PrivateToPublicSend c now pp2 pkt pktVLAN ip protocol pktTCP
               v4addr v6addr newPort False))"
  by (cases ip) (auto simp: PrivateToPublicMiss_def Let_def acquiredFor_def srcAddrOf_def)

lemma egress_lookup_miss:
  assumes "translationTable (PrivatePort pp) protocol key = None"
  shows "PrivateToPublicLookup c now pp pkt pktVLAN ip protocol pktTCP key acquired =
     (let pp1 = pp\<lparr>PrivatePort := arpStore (PrivatePort pp) (srcAddrOf ip) (EtherSAddr pkt)\<rparr> in
      if \<not> acquired \<or> \<not> acquiredFor (PublicPort pp) ip then Some (DirDROP, pp1, pkt)
      else
        (case allocateNewEgressConnection c now pp1 (isIPv6 ip) protocol key of
           None \<Rightarrow> None
         | Some (pp2, Inl err) \<Rightarrow> Some (DirDROP, pp2, pkt)
         | Some (pp2, Inr (v4addr, v6addr, newPort)) \<Rightarrow>
             PrivateToPublicSend c now pp2 pkt pktVLAN ip protocol pktTCP
               v4addr v6addr newPort False))"
  using assms
  by (simp add: PrivateToPublicLookup_def PrivateToPublicMiss_eq Let_def)

lemma deleteOldConnection_private_arp:
  "deleteOldConnection pp ipv6 protocol port = Some pp' \<Longrightarrow>
   arpTable (PrivatePort pp') = arpTable (PrivatePort pp)"
  by (rule deleteOldConnection_effect(3))

lemma allocNewPort_private_arp:
  "allocNewPort c now pp ipv6 protocol = Some (pp', r) \<Longrightarrow>
   arpTable (PrivatePort pp') = arpTable (PrivatePort pp)"
  by (auto simp: allocNewPort_def Let_def split: option.splits
        dest: deleteOldConnection_private_arp)

lemma allocateNewEgressConnection_private_arp:
  assumes "allocateNewEgressConnection c now pp ipv6 protocol privEntry = Some (pp', r)"
  shows "arpTable (PrivatePort pp') = arpTable (PrivatePort pp)"
proof (cases "allocNewPort c now pp ipv6 protocol")
  case None
  with assms show ?thesis
    by (simp add: allocateNewEgressConnection_def)
next
  case (Some a)
  obtain pp1 r1 where a: "a = (pp1, r1)"
    by (cases a)
  have "arpTable (PrivatePort pp1) = arpTable (PrivatePort pp)"
    using Some a by (auto dest: allocNewPort_private_arp)
  with assms Some a show ?thesis
    by (cases r1)
       (auto simp: allocateNewEgressConnection_def Let_def split: if_splits)
qed

lemma checkTCPTermination_private_arp:
  "checkTCPTermination c now pp ipv6 hdr port d = Some pp' \<Longrightarrow>
   arpTable (PrivatePort pp') = arpTable (PrivatePort pp)"
  by (auto simp: checkTCPTermination_def Let_def split: option.splits if_splits
        dest: deleteOldConnection_private_arp)

lemma PrivateToPublicSend_private_arp:
  "PrivateToPublicSend c now pp pkt pktVLAN ip protocol pktTCP v4addr v6addr newPort zeroAddr =
     Some (d, pp', pkt') \<Longrightarrow>
   arpTable (PrivatePort pp') = arpTable (PrivatePort pp)"
  by (auto simp: PrivateToPublicSend_def Let_def split: option.splits if_splits
        dest: checkTCPTermination_private_arp)

lemma egress_lookup_miss_arp:
  assumes miss: "translationTable (PrivatePort pp) protocol key = None"
    and res: "PrivateToPublicLookup c now pp pkt pktVLAN ip protocol pktTCP key acquired =
              Some (d, pp', pkt')"
  shows "arpTable (PrivatePort pp') =
         (arpTable (PrivatePort pp))(srcAddrOf ip \<mapsto> EtherSAddr pkt)"
proof -
  let ?pp1 = "pp\<lparr>PrivatePort := arpStore (PrivatePort pp) (srcAddrOf ip) (EtherSAddr pkt)\<rparr>"
  have base: "arpTable (PrivatePort ?pp1) =
              (arpTable (PrivatePort pp))(srcAddrOf ip \<mapsto> EtherSAddr pkt)"
    by (simp add: arpStore_def)
  show ?thesis
  proof (cases "\<not> acquired \<or> \<not> acquiredFor (PublicPort pp) ip")
    case True
    with res base show ?thesis
      unfolding egress_lookup_miss[OF miss] by (auto simp: Let_def)
  next
    case False
    show ?thesis
    proof (cases "allocateNewEgressConnection c now ?pp1 (isIPv6 ip) protocol key")
      case None
      with res False show ?thesis
        unfolding egress_lookup_miss[OF miss] by (simp add: Let_def)
    next
      case (Some a)
      obtain pp2 r where a: "a = (pp2, r)"
        by (cases a)
      have arp2: "arpTable (PrivatePort pp2) = arpTable (PrivatePort ?pp1)"
        using Some a by (auto dest: allocateNewEgressConnection_private_arp)
      show ?thesis
      proof (cases r)
        case (Inl e)
        with res False Some a arp2 base show ?thesis
          unfolding egress_lookup_miss[OF miss] by (simp add: Let_def)
      next
        case (Inr t)
        obtain v4addr v6addr newPort where t: "t = (v4addr, v6addr, newPort)"
          by (cases t)
        from res False Some a Inr t
        have "PrivateToPublicSend c now pp2 pkt pktVLAN ip protocol pktTCP
                v4addr v6addr newPort False = Some (d, pp', pkt')"
          unfolding egress_lookup_miss[OF miss] by (simp add: Let_def)
        from PrivateToPublicSend_private_arp[OF this] arp2 base show ?thesis
          by simp
      qed
    qed
  qed
qed

text \<open>
  C9. An egress packet that reaches the lookup and misses has its source address and
  source link address stored in the neighbour cache of the private side in every result:
  the store comes before the checks of the acquired addresses, so it is also there when the
  packet is dropped because an address is not acquired, or because the allocation fails.
\<close>

theorem egress_miss_learns_neighbour:
  assumes ip: "packetIP pkt = Some ip"
    and pass: "passesHandlers h (PrivatePort pp) pkt ip (pri2pubKeyOf ip (L4SrcPort pkt))"
    and noredirect: "\<not> redirectedToHost (PrivatePort pp) ip"
    and miss: "translationTable (PrivatePort pp) (L4Protocol pkt)
                 (pri2pubKeyOf ip (L4SrcPort pkt)) = None"
  shows "(\<forall>d pp' pkt'. PrivateToPublicTranslation c h now pp pkt = Some (d, pp', pkt') \<longrightarrow>
            arpTable (PrivatePort pp') =
              (arpTable (PrivatePort pp))(srcAddrOf ip \<mapsto> EtherSAddr pkt)) \<and>
         (\<not> acquiredFor (PrivatePort pp) ip \<or> \<not> acquiredFor (PublicPort pp) ip \<longrightarrow>
            PrivateToPublicTranslation c h now pp pkt =
              Some (DirDROP,
                    pp\<lparr>PrivatePort := arpStore (PrivatePort pp) (srcAddrOf ip) (EtherSAddr pkt)\<rparr>,
                    pkt)) \<and>
         (\<forall>pp2 err. acquiredFor (PrivatePort pp) ip \<and> acquiredFor (PublicPort pp) ip \<and>
            allocateNewEgressConnection c now
              (pp\<lparr>PrivatePort := arpStore (PrivatePort pp) (srcAddrOf ip) (EtherSAddr pkt)\<rparr>)
              (isIPv6 ip) (L4Protocol pkt) (pri2pubKeyOf ip (L4SrcPort pkt)) = Some (pp2, Inl err) \<longrightarrow>
            PrivateToPublicTranslation c h now pp pkt = Some (DirDROP, pp2, pkt))"
proof -
  note lookup = egress_reaches_lookup[OF ip pass noredirect, of c now]
  have "arpTable (PrivatePort pp') =
          (arpTable (PrivatePort pp))(srcAddrOf ip \<mapsto> EtherSAddr pkt)"
    if "PrivateToPublicTranslation c h now pp pkt = Some (d, pp', pkt')" for d pp' pkt'
    using that egress_lookup_miss_arp[OF miss] unfolding lookup by blast
  moreover have "PrivateToPublicTranslation c h now pp pkt =
              Some (DirDROP,
                    pp\<lparr>PrivatePort := arpStore (PrivatePort pp) (srcAddrOf ip) (EtherSAddr pkt)\<rparr>,
                    pkt)"
    if "\<not> acquiredFor (PrivatePort pp) ip \<or> \<not> acquiredFor (PublicPort pp) ip"
    using that unfolding lookup egress_lookup_miss[OF miss] by (auto simp: Let_def)
  moreover have "PrivateToPublicTranslation c h now pp pkt = Some (DirDROP, pp2, pkt)"
    if "acquiredFor (PrivatePort pp) ip \<and> acquiredFor (PublicPort pp) ip \<and>
        allocateNewEgressConnection c now
          (pp\<lparr>PrivatePort := arpStore (PrivatePort pp) (srcAddrOf ip) (EtherSAddr pkt)\<rparr>)
          (isIPv6 ip) (L4Protocol pkt) (pri2pubKeyOf ip (L4SrcPort pkt)) = Some (pp2, Inl err)"
    for pp2 err
    using that unfolding lookup egress_lookup_miss[OF miss] by (simp add: Let_def)
  ultimately show ?thesis
    by blast
qed

text \<open>The example pairs, evaluated.\<close>

lemma exPair_simps [simp]:
  "PublicPort exPair = exPublic" "PrivatePort exPair = exPrivate"
  "PrivatePort exUnacquired = exPrivate" "PrivatePort exFull = exPrivate"
  "KNIName exPrivate = []" "KNIName exPublic = []"
  "Subnet exPrivate = \<lparr>Addr = 0x0A000001, addressAcquired = True\<rparr>"
  "Subnet exPublic = \<lparr>Addr = 0xCB007101, addressAcquired = True\<rparr>"
  "Subnet (PublicPort exFull) = \<lparr>Addr = 0xCB007101, addressAcquired = True\<rparr>"
  "Subnet (PublicPort exUnacquired) = \<lparr>Addr = 0, addressAcquired = False\<rparr>"
  "translationTable exPrivate protocol = Map.empty"
  "translationTable exPublic protocol = Map.empty"
  by (simp_all add: exPair_def exPublic_def exPrivate_def exUnacquired_def exFull_def
        translationTable_def)

lemma exIP_simps [simp]:
  "pri2pubKeyOf (IPv4 \<lparr>SrcAddr = 0x0500000A, DstAddr = a\<rparr>) p = Tuple 0x0A000005 p"
  "pub2priKeyOf (IPv4 \<lparr>SrcAddr = a, DstAddr = 0x017100CB\<rparr>) p = Tuple 0xCB007101 p"
  "srcAddrOf (IPv4 \<lparr>SrcAddr = a, DstAddr = b\<rparr>) = IPv4Address a"
  "acquiredFor port (IPv4 x) = addressAcquired (Subnet port)"
  by (simp_all add: pri2pubKeyOf_def pub2priKeyOf_def srcAddrOf_def acquiredFor_def)

lemma exNoRedirect [simp]: "\<not> redirectedToHost exPrivate ip"
  by (simp add: redirectedToHost_def)

lemma exFull_exhausted:
  "poolExhausted exConsts now (getPublicPortPortmap exFull ipv6 protocol)"
proof -
  have "\<forall>e \<in> set (getPublicPortPortmap exFull ipv6 protocol). static e"
    by (simp add: getPublicPortPortmap_def getPortmap_def exFull_def exPublic_def exPair_def)
  then show ?thesis
    by (simp add: poolExhausted_def portFree_def)
qed

theorem egress_miss_learns_neighbour_witness:
  "packetIP (exEgress 0x02) = Some (IPv4 \<lparr>SrcAddr = 0x0500000A, DstAddr = 0x08080808\<rparr>) \<and>
   passesHandlers exHandlers (PrivatePort exUnacquired) (exEgress 0x02)
     (IPv4 \<lparr>SrcAddr = 0x0500000A, DstAddr = 0x08080808\<rparr>)
     (pri2pubKeyOf (IPv4 \<lparr>SrcAddr = 0x0500000A, DstAddr = 0x08080808\<rparr>)
        (L4SrcPort (exEgress 0x02))) \<and>
   \<not> redirectedToHost (PrivatePort exUnacquired)
       (IPv4 \<lparr>SrcAddr = 0x0500000A, DstAddr = 0x08080808\<rparr>) \<and>
   translationTable (PrivatePort exUnacquired) (L4Protocol (exEgress 0x02))
     (pri2pubKeyOf (IPv4 \<lparr>SrcAddr = 0x0500000A, DstAddr = 0x08080808\<rparr>)
        (L4SrcPort (exEgress 0x02))) = None \<and>
   \<not> acquiredFor (PublicPort exUnacquired) (IPv4 \<lparr>SrcAddr = 0x0500000A, DstAddr = 0x08080808\<rparr>) \<and>
   PrivateToPublicTranslation exConsts exHandlers 2000 exUnacquired (exEgress 0x02) =
     Some (DirDROP,
           exUnacquired\<lparr>PrivatePort := arpStore exPrivate (IPv4Address 0x0500000A) 0xC1\<rparr>,
           exEgress 0x02)"
proof -
  let ?ip = "IPv4 \<lparr>SrcAddr = 0x0500000A, DstAddr = 0x08080808\<rparr>"
  have ip: "packetIP (exEgress 0x02) = Some ?ip"
    by simp
  have pass: "passesHandlers exHandlers (PrivatePort exUnacquired) (exEgress 0x02) ?ip
                (pri2pubKeyOf ?ip (L4SrcPort (exEgress 0x02)))"
    by simp
  have nr: "\<not> redirectedToHost (PrivatePort exUnacquired) ?ip"
    by simp
  have miss: "translationTable (PrivatePort exUnacquired) (L4Protocol (exEgress 0x02))
                (pri2pubKeyOf ?ip (L4SrcPort (exEgress 0x02))) = None"
    by simp
  have unacq: "\<not> acquiredFor (PublicPort exUnacquired) ?ip"
    by simp
  from egress_miss_learns_neighbour[OF ip pass nr miss, of exConsts 2000] unacq
  have "PrivateToPublicTranslation exConsts exHandlers 2000 exUnacquired (exEgress 0x02) =
     Some (DirDROP,
           exUnacquired\<lparr>PrivatePort := arpStore exPrivate (IPv4Address 0x0500000A) 0xC1\<rparr>,
           exEgress 0x02)"
    by simp
  with ip pass nr miss unacq show ?thesis
    by blast
qed

text \<open>
  C6. When no port of the pool is free, an egress packet that reaches the lookup and misses,
  with both addresses acquired, gets the allocation error and is dropped. The failed
  allocation changes nothing: the public side, with its table and port maps, the private
  table and the allocation cursor are as before. (The neighbour cache of the private side
  has learned the packet's source before the allocation.)
\<close>

theorem exhausted_pool_drops:
  assumes ip: "packetIP pkt = Some ip"
    and pass: "passesHandlers h (PrivatePort pp) pkt ip (pri2pubKeyOf ip (L4SrcPort pkt))"
    and noredirect: "\<not> redirectedToHost (PrivatePort pp) ip"
    and miss: "translationTable (PrivatePort pp) (L4Protocol pkt)
                 (pri2pubKeyOf ip (L4SrcPort pkt)) = None"
    and acquired: "acquiredFor (PrivatePort pp) ip" "acquiredFor (PublicPort pp) ip"
    and exhausted: "poolExhausted c now (getPublicPortPortmap pp (isIPv6 ip) (L4Protocol pkt))"
  shows "\<exists>pp'. allocateNewEgressConnection c now
                 (pp\<lparr>PrivatePort := arpStore (PrivatePort pp) (srcAddrOf ip) (EtherSAddr pkt)\<rparr>)
                 (isIPv6 ip) (L4Protocol pkt) (pri2pubKeyOf ip (L4SrcPort pkt)) =
               Some (pp', Inl PortsExhausted) \<and>
          PrivateToPublicTranslation c h now pp pkt = Some (DirDROP, pp', pkt) \<and>
          PublicPort pp' = PublicPort pp \<and>
          translationTable (PrivatePort pp') = translationTable (PrivatePort pp) \<and>
          lastport pp' = lastport pp"
proof -
  let ?pp1 = "pp\<lparr>PrivatePort := arpStore (PrivatePort pp) (srcAddrOf ip) (EtherSAddr pkt)\<rparr>"
  have "poolExhausted c now (getPublicPortPortmap ?pp1 (isIPv6 ip) (L4Protocol pkt))"
    using exhausted by (simp add: getPublicPortPortmap_def)
  then have alloc: "allocateNewEgressConnection c now ?pp1 (isIPv6 ip) (L4Protocol pkt)
                      (pri2pubKeyOf ip (L4SrcPort pkt)) = Some (?pp1, Inl PortsExhausted)"
    by (rule allocateNewEgressConnection_exhausted)
  have "PrivateToPublicTranslation c h now pp pkt = Some (DirDROP, ?pp1, pkt)"
    unfolding egress_reaches_lookup[OF ip pass noredirect] egress_lookup_miss[OF miss]
    using acquired alloc by (simp add: Let_def)
  with alloc show ?thesis
    by (simp add: arpStore_def)
qed

theorem exhausted_pool_drops_witness:
  "packetIP (exEgress 0x02) = Some (IPv4 \<lparr>SrcAddr = 0x0500000A, DstAddr = 0x08080808\<rparr>) \<and>
   passesHandlers exHandlers (PrivatePort exFull) (exEgress 0x02)
     (IPv4 \<lparr>SrcAddr = 0x0500000A, DstAddr = 0x08080808\<rparr>)
     (pri2pubKeyOf (IPv4 \<lparr>SrcAddr = 0x0500000A, DstAddr = 0x08080808\<rparr>)
        (L4SrcPort (exEgress 0x02))) \<and>
   \<not> redirectedToHost (PrivatePort exFull) (IPv4 \<lparr>SrcAddr = 0x0500000A, DstAddr = 0x08080808\<rparr>) \<and>
   translationTable (PrivatePort exFull) (L4Protocol (exEgress 0x02))
     (pri2pubKeyOf (IPv4 \<lparr>SrcAddr = 0x0500000A, DstAddr = 0x08080808\<rparr>)
        (L4SrcPort (exEgress 0x02))) = None \<and>
   acquiredFor (PrivatePort exFull) (IPv4 \<lparr>SrcAddr = 0x0500000A, DstAddr = 0x08080808\<rparr>) \<and>
   acquiredFor (PublicPort exFull) (IPv4 \<lparr>SrcAddr = 0x0500000A, DstAddr = 0x08080808\<rparr>) \<and>
   poolExhausted exConsts 2000
     (getPublicPortPortmap exFull
        (isIPv6 (IPv4 \<lparr>SrcAddr = 0x0500000A, DstAddr = 0x08080808\<rparr>))
        (L4Protocol (exEgress 0x02))) \<and>
   (\<exists>pp'. PrivateToPublicTranslation exConsts exHandlers 2000 exFull (exEgress 0x02) =
            Some (DirDROP, pp', exEgress 0x02) \<and>
          PublicPort pp' = PublicPort exFull \<and>
          translationTable (PrivatePort pp') = translationTable (PrivatePort exFull))"
proof -
  let ?ip = "IPv4 \<lparr>SrcAddr = 0x0500000A, DstAddr = 0x08080808\<rparr>"
  have ip: "packetIP (exEgress 0x02) = Some ?ip"
    by simp
  have pass: "passesHandlers exHandlers (PrivatePort exFull) (exEgress 0x02) ?ip
                (pri2pubKeyOf ?ip (L4SrcPort (exEgress 0x02)))"
    by simp
  have nr: "\<not> redirectedToHost (PrivatePort exFull) ?ip"
    by simp
  have miss: "translationTable (PrivatePort exFull) (L4Protocol (exEgress 0x02))
                (pri2pubKeyOf ?ip (L4SrcPort (exEgress 0x02))) = None"
    by simp
  have acq: "acquiredFor (PrivatePort exFull) ?ip" "acquiredFor (PublicPort exFull) ?ip"
    by simp_all
  have full: "poolExhausted exConsts 2000
                (getPublicPortPortmap exFull (isIPv6 ?ip) (L4Protocol (exEgress 0x02)))"
    by (rule exFull_exhausted)
  from exhausted_pool_drops[OF ip pass nr miss acq full]
  have "\<exists>pp'. PrivateToPublicTranslation exConsts exHandlers 2000 exFull (exEgress 0x02) =
            Some (DirDROP, pp', exEgress 0x02) \<and>
          PublicPort pp' = PublicPort exFull \<and>
          translationTable (PrivatePort pp') = translationTable (PrivatePort exFull)"
    by blast
  with ip pass nr miss acq full show ?thesis
    by blast
qed

text \<open>
  C10. An egress packet addressed to one of the private side's own addresses is redirected
  to the host only when the side has a host-redirect interface and has acquired its
  address. When either fails the packet is not dropped for that: it goes to the lookup
  like any other egress packet, and may be translated and forwarded.
\<close>

theorem own_address_falls_through:
  assumes ip: "packetIP pkt = Some ip"
    and pass: "passesHandlers h (PrivatePort pp) pkt ip (pri2pubKeyOf ip (L4SrcPort pkt))"
    and tous: "packetSentToUs (PrivatePort pp) ip"
  shows "(KNIName (PrivatePort pp) \<noteq> [] \<and> acquiredFor (PrivatePort pp) ip \<longrightarrow>
            PrivateToPublicTranslation c h now pp pkt = Some (DirKNI, pp, pkt)) \<and>
         (KNIName (PrivatePort pp) = [] \<or> \<not> acquiredFor (PrivatePort pp) ip \<longrightarrow>
            PrivateToPublicTranslation c h now pp pkt =
              PrivateToPublicLookup c now pp pkt (VLANTag pkt) ip (L4Protocol pkt) (L4TCP pkt)
                (pri2pubKeyOf ip (L4SrcPort pkt)) (acquiredFor (PrivatePort pp) ip))"
proof -
  have "PrivateToPublicTranslation c h now pp pkt = Some (DirKNI, pp, pkt)"
    if "KNIName (PrivatePort pp) \<noteq> [] \<and> acquiredFor (PrivatePort pp) ip"
    using that tous by (intro egress_redirected[OF ip pass]) (simp add: redirectedToHost_def)
  moreover have "PrivateToPublicTranslation c h now pp pkt =
              PrivateToPublicLookup c now pp pkt (VLANTag pkt) ip (L4Protocol pkt) (L4TCP pkt)
                (pri2pubKeyOf ip (L4SrcPort pkt)) (acquiredFor (PrivatePort pp) ip)"
    if "KNIName (PrivatePort pp) = [] \<or> \<not> acquiredFor (PrivatePort pp) ip"
    using that by (intro egress_reaches_lookup[OF ip pass]) (auto simp: redirectedToHost_def)
  ultimately show ?thesis
    by blast
qed

lemma exToUs_lookup:
  "resultDir (PrivateToPublicLookup exConsts 2000 exPair exToUs None
     (IPv4 \<lparr>SrcAddr = 0x0500000A, DstAddr = 0x0100000A\<rparr>) 6 (Some \<lparr>TCPFlags = 0x02\<rparr>)
     (Tuple 0x0A000005 40000) True) = Some DirSEND"
  by code_simp

theorem own_address_falls_through_witness:
  "packetIP exToUs = Some (IPv4 \<lparr>SrcAddr = 0x0500000A, DstAddr = 0x0100000A\<rparr>) \<and>
   passesHandlers exHandlers (PrivatePort exPair) exToUs
     (IPv4 \<lparr>SrcAddr = 0x0500000A, DstAddr = 0x0100000A\<rparr>)
     (pri2pubKeyOf (IPv4 \<lparr>SrcAddr = 0x0500000A, DstAddr = 0x0100000A\<rparr>) (L4SrcPort exToUs)) \<and>
   packetSentToUs (PrivatePort exPair) (IPv4 \<lparr>SrcAddr = 0x0500000A, DstAddr = 0x0100000A\<rparr>) \<and>
   KNIName (PrivatePort exPair) = [] \<and>
   resultDir (PrivateToPublicTranslation exConsts exHandlers 2000 exPair exToUs) = Some DirSEND"
proof -
  let ?ip = "IPv4 \<lparr>SrcAddr = 0x0500000A, DstAddr = 0x0100000A\<rparr>"
  have ip: "packetIP exToUs = Some ?ip"
    by simp
  have pass: "passesHandlers exHandlers (PrivatePort exPair) exToUs ?ip
                (pri2pubKeyOf ?ip (L4SrcPort exToUs))"
    by simp
  have tous: "packetSentToUs (PrivatePort exPair) ?ip"
    by (simp add: packetSentToUs_def)
  have kni: "KNIName (PrivatePort exPair) = []"
    by simp
  from own_address_falls_through[OF ip pass tous, of exConsts 2000] kni
  have "PrivateToPublicTranslation exConsts exHandlers 2000 exPair exToUs =
        PrivateToPublicLookup exConsts 2000 exPair exToUs None ?ip 6 (Some \<lparr>TCPFlags = 0x02\<rparr>)
          (Tuple 0x0A000005 40000) True"
    by simp
  then have "resultDir (PrivateToPublicTranslation exConsts exHandlers 2000 exPair exToUs) =
             Some DirSEND"
    by (simp add: exToUs_lookup)
  with ip pass tous kni show ?thesis
    by blast
qed

section \<open>Idle mappings\<close>

lemma ingress_lookup_stale:
  assumes hit: "translationTable (PublicPort pp) protocol key = Some v"
    and family: "getAddrFromTuple v (isIPv6 ip) \<noteq> None"
    and inr: "unat portNumber < length (getPublicPortPortmap pp (isIPv6 ip) protocol)"
    and nonstatic: "\<not> static (getPublicPortPortmap pp (isIPv6 ip) protocol ! unat portNumber)"
    and stale: "connectionTimeout c <
                now - lastused (getPublicPortPortmap pp (isIPv6 ip) protocol ! unat portNumber)"
  shows "PublicToPrivateLookup c now pp pkt pktVLAN ip protocol pktTCP portNumber key =
         (case deleteOldConnection pp (isIPv6 ip) protocol (unat portNumber) of
            None \<Rightarrow> None
          | Some pp1 \<Rightarrow> Some (DirDROP, pp1, pkt))"
  using assms
  by (auto simp: PublicToPrivateLookup_def Let_def getPublicPortPortmap_def)

lemma egress_lookup_hit:
  assumes hit: "translationTable (PrivatePort pp) protocol key = Some v"
    and family: "getAddrFromTuple v (isIPv6 ip) = Some (v4addr, v6addr, newPort, zeroAddr)"
    and inr: "unat newPort < length (getPublicPortPortmap pp (isIPv6 ip) protocol)"
  shows "PrivateToPublicLookup c now pp pkt pktVLAN ip protocol pktTCP key acquired =
         PrivateToPublicSend c now
           (setPublicPortPortmap pp (isIPv6 ip) protocol
              ((getPublicPortPortmap pp (isIPv6 ip) protocol)
                 [unat newPort :=
                    (getPublicPortPortmap pp (isIPv6 ip) protocol ! unat newPort)
                      \<lparr>lastused := now\<rparr>]))
           pkt pktVLAN ip protocol pktTCP v4addr v6addr newPort zeroAddr"
  using assms
  by (simp add: PrivateToPublicLookup_def Let_def getPublicPortPortmap_def)

lemma forPort_pub2priKeyOf [simp]:
  "forPort (isIPv6 ip) (unat portNumber) (pub2priKeyOf ip portNumber)"
  by (cases ip) (simp_all add: forPort_def pub2priKeyOf_def)

text \<open>
  C3, as stated, fails in the egress direction: a private-to-public lookup that hits a
  non-static mapping idle for longer than the connection timeout does not check the age.
  Here the mapping was last used at time 1000, the timeout is 60 and the packet comes at
  time 2000: the packet is forwarded, the slot's \<open>lastused\<close> becomes 2000 and both table
  entries stay.
\<close>

theorem stale_egress_hit_counterexample:
  "\<not> static (getPublicPortPortmap (exMapped 0 0) False TCPNumber ! 1) \<and>
   connectionTimeout exConsts <
     2000 - lastused (getPublicPortPortmap (exMapped 0 0) False TCPNumber ! 1) \<and>
   translationTable (PrivatePort (exMapped 0 0)) TCPNumber (Tuple 0x0A000005 40000) =
     Some (Tuple 0xCB007101 1) \<and>
   resultDir (PrivateToPublicTranslation exConsts exHandlers 2000 (exMapped 0 0) (exEgress 0x10)) =
     Some DirSEND \<and>
   slotAfter (PrivateToPublicTranslation exConsts exHandlers 2000 (exMapped 0 0) (exEgress 0x10))
     False TCPNumber 1 =
     Some \<lparr>lastused = 2000, finCount = 0, terminationDirection = 0, static = False\<rparr> \<and>
   privateEntryAfter
     (PrivateToPublicTranslation exConsts exHandlers 2000 (exMapped 0 0) (exEgress 0x10))
     TCPNumber (Tuple 0x0A000005 40000) = Some (Some (Tuple 0xCB007101 1)) \<and>
   publicEntryAfter
     (PrivateToPublicTranslation exConsts exHandlers 2000 (exMapped 0 0) (exEgress 0x10))
     TCPNumber (Tuple 0xCB007101 1) = Some (Some (Tuple 0x0A000005 40000))"
  by code_simp

text \<open>
  C3, amended. For a non-static mapping whose \<open>lastused\<close> is older than the connection
  timeout, the next public-to-private lookup that hits it deletes both table entries of the
  mapping, resets the slot and drops the packet; the mapping is not refreshed. A
  private-to-public lookup that hits a mapping does not look at its age: it sets the slot's
  \<open>lastused\<close> to the current time and goes on to translate the packet.
\<close>

theorem idle_reap_on_ingress:
  assumes ip: "packetIP pkt = Some ip"
    and pass: "passesHandlers h (PublicPort pp) pkt ip (pub2priKeyOf ip (L4DstPort pkt))"
    and hit: "translationTable (PublicPort pp) (L4Protocol pkt)
                (pub2priKeyOf ip (L4DstPort pkt)) = Some v"
    and family: "getAddrFromTuple v (isIPv6 ip) \<noteq> None"
    and inr: "unat (L4DstPort pkt) < length (getPublicPortPortmap pp (isIPv6 ip) (L4Protocol pkt))"
    and nonstatic: "\<not> static (getPublicPortPortmap pp (isIPv6 ip) (L4Protocol pkt) !
                               unat (L4DstPort pkt))"
    and stale: "connectionTimeout c <
                now - lastused (getPublicPortPortmap pp (isIPv6 ip) (L4Protocol pkt) !
                                  unat (L4DstPort pkt))"
  shows "(\<exists>pp'. PublicToPrivateTranslation c h now pp pkt = Some (DirDROP, pp', pkt) \<and>
            translationTable (PublicPort pp') (L4Protocol pkt)
              (pub2priKeyOf ip (L4DstPort pkt)) = None \<and>
            translationTable (PrivatePort pp') (L4Protocol pkt) v = None \<and>
            getPublicPortPortmap pp' (isIPv6 ip) (L4Protocol pkt) ! unat (L4DstPort pkt) =
              portMapEntry0) \<and>
         (\<forall>h' now' epkt eip w v4addr v6addr newPort zeroAddr.
            packetIP epkt = Some eip \<and>
            passesHandlers h' (PrivatePort pp) epkt eip (pri2pubKeyOf eip (L4SrcPort epkt)) \<and>
            \<not> redirectedToHost (PrivatePort pp) eip \<and>
            translationTable (PrivatePort pp) (L4Protocol epkt)
              (pri2pubKeyOf eip (L4SrcPort epkt)) = Some w \<and>
            getAddrFromTuple w (isIPv6 eip) = Some (v4addr, v6addr, newPort, zeroAddr) \<and>
            unat newPort < length (getPublicPortPortmap pp (isIPv6 eip) (L4Protocol epkt)) \<longrightarrow>
            PrivateToPublicTranslation c h' now' pp epkt =
              PrivateToPublicSend c now'
                (setPublicPortPortmap pp (isIPv6 eip) (L4Protocol epkt)
                   ((getPublicPortPortmap pp (isIPv6 eip) (L4Protocol epkt))
                      [unat newPort :=
                         (getPublicPortPortmap pp (isIPv6 eip) (L4Protocol epkt) ! unat newPort)
                           \<lparr>lastused := now'\<rparr>]))
                epkt (VLANTag epkt) eip (L4Protocol epkt) (L4TCP epkt)
                v4addr v6addr newPort zeroAddr)"
proof -
  let ?key = "pub2priKeyOf ip (L4DstPort pkt)"
  from inr have "deleteOldConnection pp (isIPv6 ip) (L4Protocol pkt) (unat (L4DstPort pkt)) \<noteq> None"
    using deleteOldConnection_Some[OF inr] by auto
  then obtain pp' where
    d: "deleteOldConnection pp (isIPv6 ip) (L4Protocol pkt) (unat (L4DstPort pkt)) = Some pp'"
    by blast
  have "PublicToPrivateTranslation c h now pp pkt = Some (DirDROP, pp', pkt)"
    unfolding ingress_reaches_lookup[OF ip pass]
      ingress_lookup_stale[OF hit family inr nonstatic stale]
    by (simp add: d)
  moreover have "translationTable (PublicPort pp') (L4Protocol pkt) ?key = None"
    unfolding deleteOldConnection_effect(1)[OF d] by simp
  moreover have "translationTable (PrivatePort pp') (L4Protocol pkt) v = None"
    unfolding deleteOldConnection_effect(2)[OF d]
    using hit forPort_pub2priKeyOf[of ip "L4DstPort pkt"] by auto
  moreover have "getPublicPortPortmap pp' (isIPv6 ip) (L4Protocol pkt) ! unat (L4DstPort pkt) =
                 portMapEntry0"
    using deleteOldConnection_effect(9)[OF d] inr by simp
  moreover have "PrivateToPublicTranslation c h' now' pp epkt =
              PrivateToPublicSend c now'
                (setPublicPortPortmap pp (isIPv6 eip) (L4Protocol epkt)
                   ((getPublicPortPortmap pp (isIPv6 eip) (L4Protocol epkt))
                      [unat newPort :=
                         (getPublicPortPortmap pp (isIPv6 eip) (L4Protocol epkt) ! unat newPort)
                           \<lparr>lastused := now'\<rparr>]))
                epkt (VLANTag epkt) eip (L4Protocol epkt) (L4TCP epkt)
                v4addr v6addr newPort zeroAddr"
    if "packetIP epkt = Some eip"
      "passesHandlers h' (PrivatePort pp) epkt eip (pri2pubKeyOf eip (L4SrcPort epkt))"
      "\<not> redirectedToHost (PrivatePort pp) eip"
      "translationTable (PrivatePort pp) (L4Protocol epkt)
         (pri2pubKeyOf eip (L4SrcPort epkt)) = Some w"
      "getAddrFromTuple w (isIPv6 eip) = Some (v4addr, v6addr, newPort, zeroAddr)"
      "unat newPort < length (getPublicPortPortmap pp (isIPv6 eip) (L4Protocol epkt))"
    for h' now' epkt eip w v4addr v6addr newPort zeroAddr
    unfolding egress_reaches_lookup[OF that(1,2,3)] egress_lookup_hit[OF that(4,5,6)] ..
  ultimately show ?thesis
    by (intro conjI exI[of _ pp'] allI impI) auto
qed

lemma exMoved_simps [simp]:
  "translationTable (PublicPort exMoved) p k = translationTable (PublicPort (exMapped 0 0)) p k"
  "getPublicPortPortmap exMoved False p = getPublicPortPortmap (exMapped 0 0) False p"
  "Subnet (PublicPort exMoved) = \<lparr>Addr = 0xCB007102, addressAcquired = True\<rparr>"
  by (simp_all add: exMoved_def translationTable_def getPublicPortPortmap_def getPortmap_def)

text \<open>
  The theorem at a mapping whose public side has since moved to another address: the
  lookup key is the tuple the mapping was allocated with.
\<close>

theorem idle_reap_on_ingress_witness:
  "Addr (Subnet (PublicPort exMoved)) = 0xCB007102 \<and>
   packetIP (exIngress 1 0x10) = Some (IPv4 \<lparr>SrcAddr = 0x08080808, DstAddr = 0x017100CB\<rparr>) \<and>
   passesHandlers exHandlers (PublicPort exMoved) (exIngress 1 0x10)
     (IPv4 \<lparr>SrcAddr = 0x08080808, DstAddr = 0x017100CB\<rparr>) (Tuple 0xCB007101 1) \<and>
   translationTable (PublicPort exMoved) 6 (Tuple 0xCB007101 1) =
     Some (Tuple 0x0A000005 40000) \<and>
   getAddrFromTuple (Tuple 0x0A000005 40000) False \<noteq> None \<and>
   1 < length (getPublicPortPortmap exMoved False 6) \<and>
   \<not> static (getPublicPortPortmap exMoved False 6 ! 1) \<and>
   connectionTimeout exConsts < 2000 - lastused (getPublicPortPortmap exMoved False 6 ! 1) \<and>
   (\<exists>pp'. PublicToPrivateTranslation exConsts exHandlers 2000 exMoved (exIngress 1 0x10) =
            Some (DirDROP, pp', exIngress 1 0x10) \<and>
          translationTable (PublicPort pp') 6 (Tuple 0xCB007101 1) = None \<and>
          translationTable (PrivatePort pp') 6 (Tuple 0x0A000005 40000) = None \<and>
          getPublicPortPortmap pp' False 6 ! 1 = portMapEntry0)"
proof -
  let ?ip = "IPv4 \<lparr>SrcAddr = 0x08080808, DstAddr = 0x017100CB\<rparr>"
  let ?pkt = "exIngress 1 0x10"
  have ip: "packetIP ?pkt = Some ?ip"
    by simp
  have pass: "passesHandlers exHandlers (PublicPort exMoved) ?pkt ?ip
                (pub2priKeyOf ?ip (L4DstPort ?pkt))"
    by simp
  have hit: "translationTable (PublicPort exMoved) (L4Protocol ?pkt)
               (pub2priKeyOf ?ip (L4DstPort ?pkt)) = Some (Tuple 0x0A000005 40000)"
    by simp
  have family: "getAddrFromTuple (Tuple 0x0A000005 40000) (isIPv6 ?ip) \<noteq> None"
    by simp
  have inr: "unat (L4DstPort ?pkt) <
             length (getPublicPortPortmap exMoved (isIPv6 ?ip) (L4Protocol ?pkt))"
    by simp
  have nonstatic: "\<not> static (getPublicPortPortmap exMoved (isIPv6 ?ip) (L4Protocol ?pkt) !
                               unat (L4DstPort ?pkt))"
    by simp
  have stale: "connectionTimeout exConsts <
               2000 - lastused (getPublicPortPortmap exMoved (isIPv6 ?ip) (L4Protocol ?pkt) !
                                  unat (L4DstPort ?pkt))"
    by simp
  from idle_reap_on_ingress[OF ip pass hit family inr nonstatic stale]
  have "\<exists>pp'. PublicToPrivateTranslation exConsts exHandlers 2000 exMoved ?pkt =
            Some (DirDROP, pp', ?pkt) \<and>
          translationTable (PublicPort pp') 6 (Tuple 0xCB007101 1) = None \<and>
          translationTable (PrivatePort pp') 6 (Tuple 0x0A000005 40000) = None \<and>
          getPublicPortPortmap pp' False 6 ! 1 = portMapEntry0"
    by simp
  with pass hit family inr nonstatic stale show ?thesis
    by simp
qed

section \<open>The pairing of the two tables\<close>

lemma pairing_cong:
  "translationTable (PublicPort pp') = translationTable (PublicPort pp) \<Longrightarrow>
   translationTable (PrivatePort pp') = translationTable (PrivatePort pp) \<Longrightarrow>
   pairing pp' = pairing pp"
  by (simp add: pairing_def)

lemma privatePaired_cong:
  "translationTable (PublicPort pp') = translationTable (PublicPort pp) \<Longrightarrow>
   translationTable (PrivatePort pp') = translationTable (PrivatePort pp) \<Longrightarrow>
   privatePaired pp' = privatePaired pp"
  by (simp add: privatePaired_def)

lemma pairing_setPublicPortPortmap [simp]:
  "pairing (setPublicPortPortmap pp ipv6 protocol pm) = pairing pp"
  by (rule pairing_cong) simp_all

lemma privatePaired_setPublicPortPortmap [simp]:
  "privatePaired (setPublicPortPortmap pp ipv6 protocol pm) = privatePaired pp"
  by (rule privatePaired_cong) simp_all

lemma pairing_arpStore_private [simp]:
  "pairing (pp\<lparr>PrivatePort := arpStore (PrivatePort pp) a m\<rparr>) = pairing pp"
  by (rule pairing_cong) simp_all

lemma pairing_arpStore_public [simp]:
  "pairing (pp\<lparr>PublicPort := arpStore (PublicPort pp) a m\<rparr>) = pairing pp"
  by (rule pairing_cong) simp_all

lemma pairing_lastport [simp]:
  "pairing (pp\<lparr>lastport := l\<rparr>) = pairing pp"
  by (rule pairing_cong) simp_all

lemma privatePaired_lastport [simp]:
  "privatePaired (pp\<lparr>lastport := l\<rparr>) = privatePaired pp"
  by (rule privatePaired_cong) simp_all

lemma pairing_privatePaired: "pairing pp \<Longrightarrow> privatePaired pp"
  by (simp add: pairing_def privatePaired_def)

subsection \<open>Deletion\<close>

lemma privatePaired_deleteOldConnection:
  assumes p: "privatePaired pp"
    and d: "deleteOldConnection pp ipv6 protocol port = Some pp'"
  shows "privatePaired pp'"
  unfolding privatePaired_def
proof (intro allI impI)
  fix q k v
  assume pri: "translationTable (PrivatePort pp') q v = Some k"
  show "translationTable (PublicPort pp') q k = Some v"
  proof (cases "q = protocol")
    case False
    with pri p show ?thesis
      unfolding deleteOldConnection_effect(1,2)[OF d] by (simp add: privatePaired_def)
  next
    case True
    from pri True have old: "translationTable (PrivatePort pp) protocol v = Some k"
      and none: "\<not> (\<exists>k'. forPort ipv6 port k' \<and>
                          translationTable (PublicPort pp) protocol k' = Some v)"
      unfolding deleteOldConnection_effect(2)[OF d] by (auto split: if_splits)
    from p old have pub: "translationTable (PublicPort pp) protocol k = Some v"
      by (simp add: privatePaired_def)
    with none have "\<not> forPort ipv6 port k"
      by blast
    with pub True show ?thesis
      unfolding deleteOldConnection_effect(1)[OF d] by simp
  qed
qed

lemma pairing_deleteOldConnection:
  assumes p: "pairing pp"
    and d: "deleteOldConnection pp ipv6 protocol port = Some pp'"
  shows "pairing pp'"
  unfolding pairing_def
proof (intro allI)
  fix q k v
  have eq: "(translationTable (PublicPort pp) q' k' = Some v') =
            (translationTable (PrivatePort pp) q' v' = Some k')" for q' k' v'
    using p by (simp add: pairing_def)
  show "(translationTable (PublicPort pp') q k = Some v) =
        (translationTable (PrivatePort pp') q v = Some k)"
  proof (cases "q = protocol")
    case False
    then show ?thesis
      unfolding deleteOldConnection_effect(1,2)[OF d] by (simp add: eq)
  next
    case True
    have "forPort ipv6 port k \<longleftrightarrow>
          (\<exists>k'. forPort ipv6 port k' \<and> translationTable (PublicPort pp) protocol k' = Some v)"
      if "translationTable (PublicPort pp) protocol k = Some v"
      using that eq[of protocol _ v] by auto
    with True show ?thesis
      unfolding deleteOldConnection_effect(1,2)[OF d] by (auto simp: eq)
  qed
qed

lemma deleteOldConnection_private_None:
  assumes "deleteOldConnection pp ipv6 protocol port = Some pp'"
    and "translationTable (PrivatePort pp) q k = None"
  shows "translationTable (PrivatePort pp') q k = None"
  using assms(2) unfolding deleteOldConnection_effect(2)[OF assms(1)] by auto

lemma deleteOldConnection_public_None:
  assumes "deleteOldConnection pp ipv6 protocol port = Some pp'"
  shows "translationTable (PublicPort pp') protocol (publicTuple pp' ipv6 port) = None"
  unfolding deleteOldConnection_effect(1)[OF assms] by simp

subsection \<open>The termination tracker\<close>

lemma pairing_checkTCPTermination:
  assumes "pairing pp" and "checkTCPTermination c now pp ipv6 hdr port d = Some pp'"
  shows "pairing pp'"
  using assms
  by (auto simp: checkTCPTermination_def Let_def split: option.splits if_splits
        dest: pairing_deleteOldConnection)

lemma privatePaired_checkTCPTermination:
  assumes "privatePaired pp" and "checkTCPTermination c now pp ipv6 hdr port d = Some pp'"
  shows "privatePaired pp'"
  using assms
  by (auto simp: checkTCPTermination_def Let_def split: option.splits if_splits
        dest: privatePaired_deleteOldConnection)

subsection \<open>Allocation\<close>

lemma pairing_store:
  assumes p: "pairing pp"
    and fresh: "translationTable (PublicPort pp) protocol k = None"
               "translationTable (PrivatePort pp) protocol v = None"
  shows "pairing (pp\<lparr>PublicPort := tableStore (PublicPort pp) protocol k v,
                     PrivatePort := tableStore (PrivatePort pp) protocol v k\<rparr>)"
proof -
  have eq: "(translationTable (PrivatePort pp) q v' = Some k') =
            (translationTable (PublicPort pp) q k' = Some v')" for q k' v'
    using p by (simp add: pairing_def)
  have nopub: "translationTable (PublicPort pp) protocol k' \<noteq> Some v" for k'
    using fresh(2) eq[of protocol v k'] by simp
  have "(translationTable (tableStore (PublicPort pp) protocol k v) q k' = Some v') =
        (translationTable (tableStore (PrivatePort pp) protocol v k) q v' = Some k')"
    for q k' v'
    using fresh(1) nopub by (auto simp: eq)
  then show ?thesis
    by (simp add: pairing_def)
qed

lemma privatePaired_store:
  assumes p: "privatePaired pp"
    and fresh: "translationTable (PublicPort pp) protocol k = None"
  shows "privatePaired (pp\<lparr>PublicPort := tableStore (PublicPort pp) protocol k v,
                            PrivatePort := tableStore (PrivatePort pp) protocol v k\<rparr>)"
proof -
  have imp: "translationTable (PrivatePort pp) q v' = Some k' \<Longrightarrow>
             translationTable (PublicPort pp) q k' = Some v'" for q k' v'
    using p by (simp add: privatePaired_def)
  have "translationTable (tableStore (PublicPort pp) protocol k v) q k' = Some v'"
    if "translationTable (tableStore (PrivatePort pp) protocol v k) q v' = Some k'"
    for q k' v'
    using that fresh imp[of q v' k'] by (auto split: if_splits)
  then show ?thesis
    by (simp add: privatePaired_def)
qed

text \<open>What an allocation does to the state, in terms of the deletion and the two stores.\<close>

lemma allocateNewEgressConnection_cases:
  assumes res: "allocateNewEgressConnection c now pp ipv6 protocol privEntry = Some (pp', r)"
  shows "pp' = pp \<or>
         (\<exists>port pp0 pm l.
            deleteOldConnection pp ipv6 protocol port = Some pp0 \<and>
            pp' = (let pp2 = setPublicPortPortmap (pp0\<lparr>lastport := l\<rparr>) ipv6 protocol pm in
                   pp2\<lparr>PublicPort := tableStore (PublicPort pp2) protocol
                                        (publicTuple pp0 ipv6 port) privEntry,
                       PrivatePort := tableStore (PrivatePort pp2) protocol privEntry
                                        (publicTuple pp0 ipv6 port)\<rparr>))"
proof (cases "find (\<lambda>p. p < length (getPublicPortPortmap pp ipv6 protocol) \<and>
                       portFree c now (getPublicPortPortmap pp ipv6 protocol ! p))
                (portPool c (lastport pp ipv6 protocol))")
  case None
  then have "allocNewPort c now pp ipv6 protocol = Some (pp, Inl PortsExhausted)"
    by (simp add: allocNewPort_def Let_def)
  with res show ?thesis
    by (simp add: allocateNewEgressConnection_def)
next
  case (Some port)
  show ?thesis
  proof (cases "deleteOldConnection pp ipv6 protocol port")
    case None
    with Some res show ?thesis
      by (simp add: allocateNewEgressConnection_def allocNewPort_def Let_def)
  next
    case del: (Some pp0)
    let ?l = "(lastport pp0)(ipv6 := (lastport pp0 ipv6)(protocol := port))"
    have alloc: "allocNewPort c now pp ipv6 protocol = Some (pp0\<lparr>lastport := ?l\<rparr>, Inr port)"
      using Some del by (simp add: allocNewPort_def Let_def)
    from res alloc del show ?thesis
      by (auto simp: allocateNewEgressConnection_def Let_def publicTuple_def split: if_splits)
  qed
qed

lemma pairing_allocateNewEgressConnection:
  assumes p: "pairing pp"
    and miss: "translationTable (PrivatePort pp) protocol privEntry = None"
    and res: "allocateNewEgressConnection c now pp ipv6 protocol privEntry = Some (pp', r)"
  shows "pairing pp'"
  using allocateNewEgressConnection_cases[OF res]
proof (elim disjE exE conjE)
  assume "pp' = pp"
  with p show ?thesis by simp
next
  fix port pp0 pm l
  assume del: "deleteOldConnection pp ipv6 protocol port = Some pp0"
    and pp': "pp' = (let pp2 = setPublicPortPortmap (pp0\<lparr>lastport := l\<rparr>) ipv6 protocol pm in
                   pp2\<lparr>PublicPort := tableStore (PublicPort pp2) protocol
                                        (publicTuple pp0 ipv6 port) privEntry,
                       PrivatePort := tableStore (PrivatePort pp2) protocol privEntry
                                        (publicTuple pp0 ipv6 port)\<rparr>)"
  let ?pp2 = "setPublicPortPortmap (pp0\<lparr>lastport := l\<rparr>) ipv6 protocol pm"
  have p2: "pairing ?pp2"
    using pairing_deleteOldConnection[OF p del] by simp
  have f2: "translationTable (PublicPort ?pp2) protocol (publicTuple pp0 ipv6 port) = None"
    "translationTable (PrivatePort ?pp2) protocol privEntry = None"
    using deleteOldConnection_public_None[OF del] deleteOldConnection_private_None[OF del miss]
    by simp_all
  from pairing_store[OF p2 f2] show ?thesis
    unfolding pp' Let_def by simp
qed

lemma privatePaired_allocateNewEgressConnection:
  assumes p: "privatePaired pp"
    and res: "allocateNewEgressConnection c now pp ipv6 protocol privEntry = Some (pp', r)"
  shows "privatePaired pp'"
  using allocateNewEgressConnection_cases[OF res]
proof (elim disjE exE conjE)
  assume "pp' = pp"
  with p show ?thesis by simp
next
  fix port pp0 pm l
  assume del: "deleteOldConnection pp ipv6 protocol port = Some pp0"
    and pp': "pp' = (let pp2 = setPublicPortPortmap (pp0\<lparr>lastport := l\<rparr>) ipv6 protocol pm in
                   pp2\<lparr>PublicPort := tableStore (PublicPort pp2) protocol
                                        (publicTuple pp0 ipv6 port) privEntry,
                       PrivatePort := tableStore (PrivatePort pp2) protocol privEntry
                                        (publicTuple pp0 ipv6 port)\<rparr>)"
  let ?pp2 = "setPublicPortPortmap (pp0\<lparr>lastport := l\<rparr>) ipv6 protocol pm"
  have p2: "privatePaired ?pp2"
    using privatePaired_deleteOldConnection[OF p del] by simp
  have f2: "translationTable (PublicPort ?pp2) protocol (publicTuple pp0 ipv6 port) = None"
    using deleteOldConnection_public_None[OF del] by simp
  from privatePaired_store[OF p2 f2] show ?thesis
    unfolding pp' Let_def by simp
qed

subsection \<open>Packets processed one at a time\<close>

lemma pairing_PrivateToPublicSend:
  assumes "pairing pp"
    and "PrivateToPublicSend c now pp pkt pktVLAN ip protocol pktTCP v4addr v6addr newPort zeroAddr =
           Some (d, pp', pkt')"
  shows "pairing pp'"
  using assms
  by (auto simp: PrivateToPublicSend_def Let_def split: option.splits if_splits
        dest: pairing_checkTCPTermination)

lemma pairing_PrivateToPublicLookup:
  assumes p: "pairing pp"
    and res: "PrivateToPublicLookup c now pp pkt pktVLAN ip protocol pktTCP key acquired =
                Some (d, pp', pkt')"
  shows "pairing pp'"
proof (cases "translationTable (PrivatePort pp) protocol key")
  case None
  let ?pp1 = "pp\<lparr>PrivatePort := arpStore (PrivatePort pp) (srcAddrOf ip) (EtherSAddr pkt)\<rparr>"
  have p1: "pairing ?pp1"
    using p by simp
  have miss1: "translationTable (PrivatePort ?pp1) protocol key = None"
    using None by simp
  show ?thesis
  proof (cases "\<not> acquired \<or> \<not> acquiredFor (PublicPort pp) ip")
    case True
    with res p1 show ?thesis
      unfolding egress_lookup_miss[OF None] by (auto simp: Let_def)
  next
    case False
    show ?thesis
    proof (cases "allocateNewEgressConnection c now ?pp1 (isIPv6 ip) protocol key")
      case None
      with res False show ?thesis
        unfolding egress_lookup_miss[OF \<open>translationTable (PrivatePort pp) protocol key = None\<close>]
        by (simp add: Let_def)
    next
      case (Some a)
      obtain pp2 r where a: "a = (pp2, r)"
        by (cases a)
      have p2: "pairing pp2"
        using pairing_allocateNewEgressConnection[OF p1 miss1] Some a by blast
      show ?thesis
      proof (cases r)
        case (Inl e)
        with res False Some a p2 show ?thesis
          unfolding egress_lookup_miss[OF \<open>translationTable (PrivatePort pp) protocol key = None\<close>]
          by (simp add: Let_def)
      next
        case (Inr t)
        obtain v4addr v6addr newPort where t: "t = (v4addr, v6addr, newPort)"
          by (cases t)
        from res False Some a Inr t
        have "PrivateToPublicSend c now pp2 pkt pktVLAN ip protocol pktTCP
                v4addr v6addr newPort False = Some (d, pp', pkt')"
          unfolding egress_lookup_miss[OF \<open>translationTable (PrivatePort pp) protocol key = None\<close>]
          by (simp add: Let_def)
        with p2 show ?thesis
          by (rule pairing_PrivateToPublicSend)
      qed
    qed
  qed
next
  case (Some v)
  show ?thesis
  proof (cases "getAddrFromTuple v (isIPv6 ip)")
    case None
    with res Some show ?thesis
      by (simp add: PrivateToPublicLookup_def Let_def)
  next
    case found: (Some t)
    obtain v4addr v6addr newPort zeroAddr where t: "t = (v4addr, v6addr, newPort, zeroAddr)"
      by (cases t)
    let ?pm = "getPortmap (PublicPort pp) (isIPv6 ip) protocol"
    let ?pp1 = "setPublicPortPortmap pp (isIPv6 ip) protocol
                  (?pm[unat newPort := (?pm ! unat newPort)\<lparr>lastused := now\<rparr>])"
    from res Some found t
    have "PrivateToPublicSend c now ?pp1 pkt pktVLAN ip protocol pktTCP
            v4addr v6addr newPort zeroAddr = Some (d, pp', pkt')"
      by (simp add: PrivateToPublicLookup_def Let_def split: if_splits)
    moreover have "pairing ?pp1"
      using p by simp
    ultimately show ?thesis
      by (rule pairing_PrivateToPublicSend[rotated])
  qed
qed

lemma pairing_PublicToPrivateLookup:
  assumes p: "pairing pp"
    and res: "PublicToPrivateLookup c now pp pkt pktVLAN ip protocol pktTCP portNumber key =
                Some (d, pp', pkt')"
  shows "pairing pp'"
proof (cases "translationTable (PublicPort pp) protocol key")
  case None
  with res p show ?thesis
    unfolding ingress_lookup_miss[OF None] by auto
next
  case (Some v)
  with res p show ?thesis
    by (auto simp: PublicToPrivateLookup_def Let_def split: option.splits if_splits
          dest: pairing_deleteOldConnection dest!: pairing_checkTCPTermination[rotated])
qed

lemma pairing_PublicToPrivateTranslation:
  assumes "pairing pp" and "PublicToPrivateTranslation c h now pp pkt = Some (d, pp', pkt')"
  shows "pairing pp'"
  using assms
  by (auto simp: PublicToPrivateTranslation_def Let_def split: prod.splits option.splits if_splits
        dest: pairing_PublicToPrivateLookup)

lemma pairing_PrivateToPublicTranslation:
  assumes "pairing pp" and "PrivateToPublicTranslation c h now pp pkt = Some (d, pp', pkt')"
  shows "pairing pp'"
  using assms
  by (auto simp: PrivateToPublicTranslation_def Let_def split: prod.splits option.splits if_splits
        dest: pairing_PrivateToPublicLookup)

lemma reachableSerial_pairing:
  assumes "reachableSerial c h pp"
  shows "pairing pp"
  using assms
proof (induction rule: reachableSerial.induct)
  case (initial pp)
  then show ?case
    by (simp add: pairing_def)
next
  case (ingress pp now pkt d pp' pkt')
  then show ?case
    by (blast intro: pairing_PublicToPrivateTranslation)
next
  case (egress pp now pkt d pp' pkt')
  then show ?case
    by (blast intro: pairing_PrivateToPublicTranslation)
next
  case (external pp pp')
  then show ?case
    by (simp add: pairing_def)
qed

subsection \<open>Any interleaving of the workers\<close>

lemma reachable_privatePaired:
  assumes "reachable c pp"
  shows "privatePaired pp"
  using assms
proof (induction rule: reachable.induct)
  case (initial pp)
  then show ?case
    by (simp add: privatePaired_def)
next
  case (allocation pp now ipv6 protocol privEntry pp' r)
  then show ?case
    by (blast intro: privatePaired_allocateNewEgressConnection)
next
  case (tracker pp now ipv6 hdr port d pp')
  then show ?case
    by (blast intro: privatePaired_checkTCPTermination)
next
  case (deletion pp ipv6 protocol port pp')
  then show ?case
    by (blast intro: privatePaired_deleteOldConnection)
next
  case (external pp pp')
  then show ?case
    by (simp add: privatePaired_def)
qed

text \<open>
  The runs of the entry points are sequences of the steps of \<open>reachable\<close>: what is reached
  one packet at a time is reached by some interleaving.
\<close>

lemma reachable_same_tables:
  "reachable c pp \<Longrightarrow>
   translationTable (PublicPort pp') = translationTable (PublicPort pp) \<Longrightarrow>
   translationTable (PrivatePort pp') = translationTable (PrivatePort pp) \<Longrightarrow>
   reachable c pp'"
  by (rule reachable.external)

lemma reachable_setPublicPortPortmap:
  "reachable c pp \<Longrightarrow> reachable c (setPublicPortPortmap pp ipv6 protocol pm)"
  by (erule reachable.external) simp_all

lemma reachable_PrivateToPublicSend:
  assumes "reachable c pp"
    and "PrivateToPublicSend c now pp pkt pktVLAN ip protocol pktTCP v4addr v6addr newPort zeroAddr =
           Some (d, pp', pkt')"
  shows "reachable c pp'"
  using assms
  by (auto simp: PrivateToPublicSend_def Let_def split: option.splits if_splits
        intro: reachable.tracker)

lemma reachable_PrivateToPublicMiss:
  assumes r: "reachable c pp"
    and res: "PrivateToPublicMiss c now pp pkt pktVLAN ip protocol pktTCP key acquired =
                Some (d, pp', pkt')"
  shows "reachable c pp'"
proof -
  let ?pp1 = "pp\<lparr>PrivatePort := arpStore (PrivatePort pp) (srcAddrOf ip) (EtherSAddr pkt)\<rparr>"
  have r1: "reachable c ?pp1"
    using r by (rule reachable.external) simp_all
  show ?thesis
  proof (cases "\<not> acquired \<or> \<not> acquiredFor (PublicPort pp) ip")
    case True
    with res r1 show ?thesis
      unfolding PrivateToPublicMiss_eq by (auto simp: Let_def)
  next
    case False
    show ?thesis
    proof (cases "allocateNewEgressConnection c now ?pp1 (isIPv6 ip) protocol key")
      case None
      with res False show ?thesis
        unfolding PrivateToPublicMiss_eq by (simp add: Let_def)
    next
      case (Some a)
      obtain pp2 r' where a: "a = (pp2, r')"
        by (cases a)
      have r2: "reachable c pp2"
        using reachable.allocation[OF r1] Some a by blast
      show ?thesis
      proof (cases r')
        case (Inl e)
        with res False Some a r2 show ?thesis
          unfolding PrivateToPublicMiss_eq by (simp add: Let_def)
      next
        case (Inr t)
        obtain v4addr v6addr newPort where t: "t = (v4addr, v6addr, newPort)"
          by (cases t)
        from res False Some a Inr t
        have "PrivateToPublicSend c now pp2 pkt pktVLAN ip protocol pktTCP
                v4addr v6addr newPort False = Some (d, pp', pkt')"
          unfolding PrivateToPublicMiss_eq by (simp add: Let_def)
        with r2 show ?thesis
          by (rule reachable_PrivateToPublicSend)
      qed
    qed
  qed
qed

lemma reachable_PrivateToPublicLookup:
  assumes r: "reachable c pp"
    and res: "PrivateToPublicLookup c now pp pkt pktVLAN ip protocol pktTCP key acquired =
                Some (d, pp', pkt')"
  shows "reachable c pp'"
proof (cases "translationTable (PrivatePort pp) protocol key")
  case None
  with res have "PrivateToPublicMiss c now pp pkt pktVLAN ip protocol pktTCP key acquired =
                   Some (d, pp', pkt')"
    by (simp add: PrivateToPublicLookup_def Let_def)
  with r show ?thesis
    by (rule reachable_PrivateToPublicMiss)
next
  case (Some v)
  show ?thesis
  proof (cases "getAddrFromTuple v (isIPv6 ip)")
    case None
    with res Some show ?thesis
      by (simp add: PrivateToPublicLookup_def Let_def)
  next
    case found: (Some t)
    obtain v4addr v6addr newPort zeroAddr where t: "t = (v4addr, v6addr, newPort, zeroAddr)"
      by (cases t)
    let ?pm = "getPortmap (PublicPort pp) (isIPv6 ip) protocol"
    let ?pp1 = "setPublicPortPortmap pp (isIPv6 ip) protocol
                  (?pm[unat newPort := (?pm ! unat newPort)\<lparr>lastused := now\<rparr>])"
    from res Some found t
    have "PrivateToPublicSend c now ?pp1 pkt pktVLAN ip protocol pktTCP
            v4addr v6addr newPort zeroAddr = Some (d, pp', pkt')"
      by (simp add: PrivateToPublicLookup_def Let_def split: if_splits)
    moreover have "reachable c ?pp1"
      using r by (rule reachable_setPublicPortPortmap)
    ultimately show ?thesis
      by (rule reachable_PrivateToPublicSend[rotated])
  qed
qed

lemma reachable_PublicToPrivateLookup:
  assumes r: "reachable c pp"
    and res: "PublicToPrivateLookup c now pp pkt pktVLAN ip protocol pktTCP portNumber key =
                Some (d, pp', pkt')"
  shows "reachable c pp'"
proof (cases "translationTable (PublicPort pp) protocol key")
  case None
  have "reachable c (pp\<lparr>PublicPort := arpStore (PublicPort pp) (srcAddrOf ip) (EtherSAddr pkt)\<rparr>)"
    using r by (rule reachable.external) simp_all
  with res show ?thesis
    unfolding ingress_lookup_miss[OF None] by auto
next
  case (Some v)
  note sp = reachable_setPublicPortPortmap[OF r]
  from res Some show ?thesis
    by (auto simp: PublicToPrivateLookup_def Let_def split: option.splits if_splits
          intro: sp reachable.deletion[OF r] reachable.tracker[OF sp])
qed

lemma reachable_PublicToPrivateTranslation:
  assumes "reachable c pp" and "PublicToPrivateTranslation c h now pp pkt = Some (d, pp', pkt')"
  shows "reachable c pp'"
  using assms
  by (auto simp: PublicToPrivateTranslation_def Let_def split: prod.splits option.splits if_splits
        dest: reachable_PublicToPrivateLookup)

lemma reachable_PrivateToPublicTranslation:
  assumes "reachable c pp" and "PrivateToPublicTranslation c h now pp pkt = Some (d, pp', pkt')"
  shows "reachable c pp'"
  using assms
  by (auto simp: PrivateToPublicTranslation_def Let_def split: prod.splits option.splits if_splits
        dest: reachable_PrivateToPublicLookup)

lemma reachableSerial_reachable:
  assumes "reachableSerial c h pp"
  shows "reachable c pp"
  using assms
proof (induction rule: reachableSerial.induct)
  case (initial pp)
  then show ?case
    by (rule reachable.initial)
next
  case (ingress pp now pkt d pp' pkt')
  then show ?case
    by (blast intro: reachable_PublicToPrivateTranslation)
next
  case (egress pp now pkt d pp' pkt')
  then show ?case
    by (blast intro: reachable_PrivateToPublicTranslation)
next
  case (external pp pp')
  then show ?case
    by (blast intro: reachable.external)
qed

subsection \<open>The pairing of the two tables\<close>

lemma exPair_reachable: "reachable exConsts exPair"
  by (rule reachable.initial)
    (simp_all add: fun_eq_iff exPair_def exPublic_def exPrivate_def translationTable_def)

lemma exPair_reachableSerial: "reachableSerial exConsts exHandlers exPair"
  by (rule reachableSerial.initial)
    (simp_all add: fun_eq_iff exPair_def exPublic_def exPrivate_def translationTable_def)

lemma exRace_entries:
  "publicEntryIn exRace 6 (Tuple 0xCB007101 1) = Some (Some (Tuple 0x0A000005 40000))"
  "publicEntryIn exRace 6 (Tuple 0xCB007101 2) = Some (Some (Tuple 0x0A000005 40000))"
  "privateEntryIn exRace 6 (Tuple 0x0A000005 40000) = Some (Some (Tuple 0xCB007101 2))"
  by code_simp+

lemma exRace_reachable:
  assumes "exRace = Some pp"
  shows "reachable exConsts pp"
proof -
  from assms obtain d pp1 pkt1 d2 pkt2 where
    m1: "PrivateToPublicMiss exConsts 2000 exPair (exEgress 0x02) None
           (IPv4 \<lparr>SrcAddr = 0x0500000A, DstAddr = 0x08080808\<rparr>) 6 (Some \<lparr>TCPFlags = 0x02\<rparr>)
           (Tuple 0x0A000005 40000) True = Some (d, pp1, pkt1)"
    and m2: "PrivateToPublicMiss exConsts 2000 pp1 (exEgress 0x02) None
           (IPv4 \<lparr>SrcAddr = 0x0500000A, DstAddr = 0x08080808\<rparr>) 6 (Some \<lparr>TCPFlags = 0x02\<rparr>)
           (Tuple 0x0A000005 40000) True = Some (d2, pp, pkt2)"
    unfolding exRace_def by (auto simp: resultPair_def split: option.splits)
  have "reachable exConsts pp1"
    using exPair_reachable m1 by (rule reachable_PrivateToPublicMiss)
  then show ?thesis
    using m2 by (rule reachable_PrivateToPublicMiss)
qed

lemma exPair_first_egress:
  "publicEntryAfter (PrivateToPublicTranslation exConsts exHandlers 2000 exPair (exEgress 0x02))
     6 (Tuple 0xCB007101 1) = Some (Some (Tuple 0x0A000005 40000)) \<and>
   privateEntryAfter (PrivateToPublicTranslation exConsts exHandlers 2000 exPair (exEgress 0x02))
     6 (Tuple 0x0A000005 40000) = Some (Some (Tuple 0xCB007101 1))"
  by code_simp

text \<open>
  C2, as stated, fails when two workers process packets of the same new flow at the same
  time. The private-to-public lookup runs outside the mutex of the port pair and the
  allocation does not repeat it. Both workers miss on the private tuple 10.0.0.5:40000 while
  the tables are empty; the first allocates public port 1 and stores the two entries; the
  second then allocates public port 2 and stores its two entries, replacing the private
  entry of the first. The public table is left with port 1 mapped to the private tuple, and
  the private table maps that tuple to port 2 only: the entry of port 1 has no pair. The
  state is one between two operations under the mutex.
\<close>

theorem double_allocation_counterexample:
  "publicEntryIn exRace 6 (Tuple 0xCB007101 1) = Some (Some (Tuple 0x0A000005 40000)) \<and>
   publicEntryIn exRace 6 (Tuple 0xCB007101 2) = Some (Some (Tuple 0x0A000005 40000)) \<and>
   privateEntryIn exRace 6 (Tuple 0x0A000005 40000) = Some (Some (Tuple 0xCB007101 2)) \<and>
   (\<exists>pp. exRace = Some pp \<and> reachable exConsts pp \<and> \<not> pairing pp)"
proof -
  obtain pp where s: "exRace = Some pp"
    using exRace_entries(1) by (cases exRace) (simp_all add: publicEntryIn_def)
  have pub1: "translationTable (PublicPort pp) 6 (Tuple 0xCB007101 1) =
                Some (Tuple 0x0A000005 40000)"
    using exRace_entries(1) by (simp add: s publicEntryIn_def)
  have pri: "translationTable (PrivatePort pp) 6 (Tuple 0x0A000005 40000) =
               Some (Tuple 0xCB007101 2)"
    using exRace_entries(3) by (simp add: s privateEntryIn_def)
  have "\<not> pairing pp"
  proof
    assume "pairing pp"
    with pub1 have "translationTable (PrivatePort pp) 6 (Tuple 0x0A000005 40000) =
                      Some (Tuple 0xCB007101 1)"
      by (simp add: pairing_def)
    with pri show False
      by simp
  qed
  with s exRace_reachable[OF s] exRace_entries show ?thesis
    by blast
qed

text \<open>
  C2, amended. For every protocol and in every state of a port pair between two operations
  under its mutex, whatever the interleaving of the workers, every entry of the
  private-to-public table has its pair in the public-to-private table: the allocation of an
  egress connection stores the two entries together and the deletion removes them together.
  When the packets are processed one at a time the converse holds too: the public table
  maps a tuple to a second one exactly when the private table maps the second to the first.
  The states reached one packet at a time are among those reached by the interleavings.
\<close>

theorem table_pairing:
  "(reachable c pp \<longrightarrow> privatePaired pp) \<and>
   (reachableSerial c h pp \<longrightarrow> pairing pp \<and> reachable c pp)"
  by (blast intro: reachable_privatePaired reachableSerial_pairing reachableSerial_reachable)

theorem table_pairing_witness:
  "(\<exists>pp. exRace = Some pp \<and> reachable exConsts pp \<and> privatePaired pp \<and>
         translationTable (PrivatePort pp) 6 (Tuple 0x0A000005 40000) =
           Some (Tuple 0xCB007101 2) \<and>
         translationTable (PublicPort pp) 6 (Tuple 0xCB007101 2) =
           Some (Tuple 0x0A000005 40000)) \<and>
   (\<exists>pp'. reachableSerial exConsts exHandlers pp' \<and> pairing pp' \<and> reachable exConsts pp' \<and>
          translationTable (PublicPort pp') 6 (Tuple 0xCB007101 1) =
            Some (Tuple 0x0A000005 40000) \<and>
          translationTable (PrivatePort pp') 6 (Tuple 0x0A000005 40000) =
            Some (Tuple 0xCB007101 1))"
proof -
  obtain pp where s: "exRace = Some pp"
    using exRace_entries(1) by (cases exRace) (simp_all add: publicEntryIn_def)
  have pub2: "translationTable (PublicPort pp) 6 (Tuple 0xCB007101 2) =
                Some (Tuple 0x0A000005 40000)"
    using exRace_entries(2) by (simp add: s publicEntryIn_def)
  have pri2: "translationTable (PrivatePort pp) 6 (Tuple 0x0A000005 40000) =
                Some (Tuple 0xCB007101 2)"
    using exRace_entries(3) by (simp add: s privateEntryIn_def)
  have r: "reachable exConsts pp"
    using s by (rule exRace_reachable)
  from table_pairing[of exConsts pp exHandlers] r have pr: "privatePaired pp"
    by blast
  from exPair_first_egress obtain d pp' pkt' where
    step: "PrivateToPublicTranslation exConsts exHandlers 2000 exPair (exEgress 0x02) =
             Some (d, pp', pkt')"
    and pub: "translationTable (PublicPort pp') 6 (Tuple 0xCB007101 1) =
                Some (Tuple 0x0A000005 40000)"
    and pri: "translationTable (PrivatePort pp') 6 (Tuple 0x0A000005 40000) =
                Some (Tuple 0xCB007101 1)"
    by (auto simp: publicEntryAfter_def privateEntryAfter_def publicEntryIn_def
          privateEntryIn_def resultPair_def)
  have r1: "reachableSerial exConsts exHandlers pp'"
    using exPair_reachableSerial step by (rule reachableSerial.egress)
  from table_pairing[of exConsts pp' exHandlers] r1 have "pairing pp' \<and> reachable exConsts pp'"
    by blast
  with s r pr pub2 pri2 r1 pub pri show ?thesis
    by blast
qed

end
